theory Spec2Isabelle
  imports Complex_Main "HOL-Library.Word"
begin

unbundle bit_operations_syntax

section \<open>Python values used by the motion library\<close>

text \<open>
  A Python \<^verbatim>\<open>str\<close> is a sequence of Unicode code points, each in the range
  0 .. 0x10FFFF. It is modelled as a list of natural numbers, so that its length counts
  code points as Python's \<^verbatim>\<open>len\<close> does. The function \<open>py\<close> turns an
  ASCII literal of the theory into such a string.
\<close>

type_synonym pystr = "nat list"

type_synonym byte = "8 word"

type_synonym u32 = "32 word"

definition py :: "string \<Rightarrow> pystr" where
  "py s = map of_char s"

text \<open>
  The exceptions the scripts can meet. All of them are subclasses of Python's
  \<^verbatim>\<open>Exception\<close>, so an \<^verbatim>\<open>except Exception\<close> clause catches each.
  \<open>LibraryError\<close> stands for any exception raised inside an external collaborator
  (MuJoCo, NumPy, Pillow, imageio, the file system).
\<close>

datatype exn =
    UnicodeEncodeError
  | ValueError
  | KeyError
  | IndexError
  | LibraryError

subsection \<open>\<^verbatim>\<open>str.encode()\<close>: strict UTF-8\<close>

text \<open>
  \<^verbatim>\<open>relative_path.encode()\<close> uses the codec \<^verbatim>\<open>utf-8\<close> with the error
  handler \<^verbatim>\<open>strict\<close>: a surrogate code point (U+D800 .. U+DFFF) raises
  \<^verbatim>\<open>UnicodeEncodeError\<close>. Such code points occur in Python strings: a file name
  whose bytes are not valid UTF-8 is decoded by the \<^verbatim>\<open>surrogateescape\<close> handler
  into U+DC80 .. U+DCFF.
\<close>

definition is_surrogate :: "nat \<Rightarrow> bool" where
  "is_surrogate c = (0xD800 \<le> c \<and> c \<le> 0xDFFF)"

definition utf8_encode_cp :: "nat \<Rightarrow> exn + byte list" where
  "utf8_encode_cp c =
     (if c < 0x80 then Inr [of_nat c]
      else if c < 0x800 then Inr [of_nat (0xC0 + c div 64), of_nat (0x80 + c mod 64)]
      else if is_surrogate c then Inl UnicodeEncodeError
      else if c < 0x10000 then
        Inr [of_nat (0xE0 + c div 4096), of_nat (0x80 + (c div 64) mod 64),
             of_nat (0x80 + c mod 64)]
      else
        Inr [of_nat (0xF0 + c div 262144), of_nat (0x80 + (c div 4096) mod 64),
             of_nat (0x80 + (c div 64) mod 64), of_nat (0x80 + c mod 64)])"

fun str_encode :: "pystr \<Rightarrow> exn + byte list" where
  "str_encode [] = Inr []"
| "str_encode (c # cs) =
     (case utf8_encode_cp c of
        Inl e \<Rightarrow> Inl e
      | Inr bs \<Rightarrow> (case str_encode cs of Inl e \<Rightarrow> Inl e | Inr rest \<Rightarrow> Inr (bs @ rest)))"

subsection \<open>\<^verbatim>\<open>hashlib.md5\<close> (RFC 1321)\<close>

definition md5_K :: "u32 list" where
  "md5_K =
    [0xd76aa478, 0xe8c7b756, 0x242070db, 0xc1bdceee,
     0xf57c0faf, 0x4787c62a, 0xa8304613, 0xfd469501,
     0x698098d8, 0x8b44f7af, 0xffff5bb1, 0x895cd7be,
     0x6b901122, 0xfd987193, 0xa679438e, 0x49b40821,
     0xf61e2562, 0xc040b340, 0x265e5a51, 0xe9b6c7aa,
     0xd62f105d, 0x02441453, 0xd8a1e681, 0xe7d3fbc8,
     0x21e1cde6, 0xc33707d6, 0xf4d50d87, 0x455a14ed,
     0xa9e3e905, 0xfcefa3f8, 0x676f02d9, 0x8d2a4c8a,
     0xfffa3942, 0x8771f681, 0x6d9d6122, 0xfde5380c,
     0xa4beea44, 0x4bdecfa9, 0xf6bb4b60, 0xbebfbc70,
     0x289b7ec6, 0xeaa127fa, 0xd4ef3085, 0x04881d05,
     0xd9d4d039, 0xe6db99e5, 0x1fa27cf8, 0xc4ac5665,
     0xf4292244, 0x432aff97, 0xab9423a7, 0xfc93a039,
     0x655b59c3, 0x8f0ccc92, 0xffeff47d, 0x85845dd1,
     0x6fa87e4f, 0xfe2ce6e0, 0xa3014314, 0x4e0811a1,
     0xf7537e82, 0xbd3af235, 0x2ad7d2bb, 0xeb86d391]"

definition md5_s :: "nat list" where
  "md5_s =
    [7, 12, 17, 22, 7, 12, 17, 22, 7, 12, 17, 22, 7, 12, 17, 22,
     5, 9, 14, 20, 5, 9, 14, 20, 5, 9, 14, 20, 5, 9, 14, 20,
     4, 11, 16, 23, 4, 11, 16, 23, 4, 11, 16, 23, 4, 11, 16, 23,
     6, 10, 15, 21, 6, 10, 15, 21, 6, 10, 15, 21, 6, 10, 15, 21]"

type_synonym md5_state = "u32 \<times> u32 \<times> u32 \<times> u32"

definition md5_init :: md5_state where
  "md5_init = (0x67452301, 0xefcdab89, 0x98badcfe, 0x10325476)"

fun md5_step :: "u32 list \<Rightarrow> md5_state \<Rightarrow> nat \<Rightarrow> md5_state" where
  "md5_step M (A, B, C, D) i =
     (let F = (if i < 16 then (B AND C) OR (NOT B AND D)
               else if i < 32 then (D AND B) OR (NOT D AND C)
               else if i < 48 then B XOR C XOR D
               else C XOR (B OR NOT D));
          g = (if i < 16 then i
               else if i < 32 then (5 * i + 1) mod 16
               else if i < 48 then (3 * i + 5) mod 16
               else (7 * i) mod 16);
          F' = F + A + md5_K ! i + M ! g
      in (D, B + word_rotl (md5_s ! i) F', B, C))"

definition le_word32 :: "byte list \<Rightarrow> u32" where
  "le_word32 bs = foldr (\<lambda>b w. ucast b OR push_bit 8 w) bs 0"

fun chunks :: "nat \<Rightarrow> 'a list \<Rightarrow> 'a list list" where
  "chunks n [] = []"
| "chunks n (x # xs) =
     (if n = 0 then [] else take n (x # xs) # chunks n (drop n (x # xs)))"

definition md5_block :: "md5_state \<Rightarrow> byte list \<Rightarrow> md5_state" where
  "md5_block st blk =
     (let M = map le_word32 (chunks 4 blk);
          (A, B, C, D) = st;
          (A', B', C', D') = foldl (md5_step M) st [0..<64]
      in (A + A', B + B', C + C', D + D'))"

definition le_bytes :: "nat \<Rightarrow> 'a::len word \<Rightarrow> byte list" where
  "le_bytes k w = map (\<lambda>j. ucast (drop_bit (8 * j) w)) [0..<k]"

definition md5_pad :: "byte list \<Rightarrow> byte list" where
  "md5_pad bs =
     bs @ [0x80] @ replicate ((119 - length bs mod 64) mod 64) 0
        @ le_bytes 8 (of_nat (8 * length bs) :: 64 word)"

definition md5_digest :: "byte list \<Rightarrow> byte list" where
  "md5_digest bs =
     (let (A, B, C, D) = foldl md5_block md5_init (chunks 64 (md5_pad bs))
      in concat (map (le_bytes 4) [A, B, C, D]))"

definition hex_digit :: "nat \<Rightarrow> nat" where
  "hex_digit d = (if d < 10 then 48 + d else 87 + d)"

definition hexdigest :: "byte list \<Rightarrow> pystr" where
  "hexdigest bs = concat (map (\<lambda>b. [hex_digit (unat b div 16), hex_digit (unat b mod 16)]) bs)"

definition is_hex_char :: "nat \<Rightarrow> bool" where
  "is_hex_char c = ((48 \<le> c \<and> c \<le> 57) \<or> (97 \<le> c \<and> c \<le> 102))"

text \<open>
  \<^verbatim>\<open>str.endswith(suffix)\<close> and \<^verbatim>\<open>sep.join(parts)\<close>.
\<close>

definition endswith :: "pystr \<Rightarrow> pystr \<Rightarrow> bool" where
  "endswith s suf = (length suf \<le> length s \<and> drop (length s - length suf) s = suf)"

fun join :: "pystr \<Rightarrow> pystr list \<Rightarrow> pystr" where
  "join sep [] = []"
| "join sep [x] = x"
| "join sep (x # y # ys) = x @ sep @ join sep (y # ys)"

fun split_on :: "nat \<Rightarrow> pystr \<Rightarrow> pystr list" where
  "split_on d [] = [[]]"
| "split_on d (c # cs) =
     (if c = d then [] # split_on d cs
      else (case split_on d cs of
              [] \<Rightarrow> [[c]]
            | r # rs \<Rightarrow> (c # r) # rs))"

section \<open>\<^verbatim>\<open>pathlib\<close> paths (POSIX flavour)\<close>

text \<open>
  A path is its root (empty for a relative path, \<^verbatim>\<open>/\<close> or \<^verbatim>\<open>//\<close> for an
  absolute one) and the list of its components. Parsing a string drops empty
  components and \<^verbatim>\<open>.\<close> components and keeps \<^verbatim>\<open>..\<close>, as
  \<^verbatim>\<open>PurePosixPath\<close> does.
\<close>

datatype path = Path (root: pystr) (names: "pystr list")

definition slash :: nat where
  "slash = 47"

definition root_of_str :: "pystr \<Rightarrow> pystr" where
  "root_of_str s =
     (if take 1 s = [slash] then
        (if take 2 s = [slash, slash] \<and> take 3 s \<noteq> [slash, slash, slash]
         then [slash, slash] else [slash])
      else [])"

definition path_of_str :: "pystr \<Rightarrow> path" where
  "path_of_str s =
     Path (root_of_str s) (filter (\<lambda>c. c \<noteq> [] \<and> c \<noteq> py ''.'') (split_on slash s))"

definition path_str :: "path \<Rightarrow> pystr" where
  "path_str p =
     (if root p = [] \<and> names p = [] then py ''.''
      else root p @ join [slash] (names p))"

text \<open>\<^verbatim>\<open>a / b\<close>: an absolute right operand replaces the left one.\<close>

definition joinpath :: "path \<Rightarrow> path \<Rightarrow> path" where
  "joinpath a b = (if root b \<noteq> [] then b else Path (root a) (names a @ names b))"

definition parent :: "path \<Rightarrow> path" where
  "parent p = (if names p = [] then p else Path (root p) (butlast (names p)))"

definition path_name :: "path \<Rightarrow> pystr" where
  "path_name p = (if names p = [] then [] else last (names p))"

text \<open>
  \<^verbatim>\<open>PurePath.suffix\<close>: the part of the final component from its last dot, when
  that dot is neither the first nor the last character of the component.
\<close>

fun rfind :: "nat \<Rightarrow> pystr \<Rightarrow> nat option" where
  "rfind d [] = None"
| "rfind d (c # cs) =
     (case rfind d cs of
        Some i \<Rightarrow> Some (Suc i)
      | None \<Rightarrow> (if c = d then Some 0 else None))"

definition suffix :: "path \<Rightarrow> pystr" where
  "suffix p =
     (let name = path_name p in
      case rfind 46 name of
        None \<Rightarrow> []
      | Some i \<Rightarrow> (if 0 < i \<and> i < length name - 1 then drop i name else []))"

text \<open>
  \<^verbatim>\<open>self.relative_to(other)\<close> raises \<^verbatim>\<open>ValueError\<close> unless \<^verbatim>\<open>other\<close>
  is an ancestor of \<^verbatim>\<open>self\<close> (or equal to it).
\<close>

definition relative_to :: "path \<Rightarrow> path \<Rightarrow> exn + path" where
  "relative_to p other =
     (if root p = root other \<and> take (length (names other)) (names p) = names other
      then Inr (Path [] (drop (length (names other)) (names p)))
      else Inl ValueError)"

section \<open>ID Generator\<close>

text \<open>
  \<^verbatim>\<open>backend/scripts/generate_thumbnails.py\<close>, \<^verbatim>\<open>get_file_id(relative_path: str)\<close>:
  \<^verbatim>\<open>hashlib.md5(relative_path.encode()).hexdigest()[:16]\<close>
\<close>

definition get_file_id :: "pystr \<Rightarrow> exn + pystr" where
  "get_file_id relative_path =
     (case str_encode relative_path of
        Inl e \<Rightarrow> Inl e
      | Inr bs \<Rightarrow> Inr (take 16 (hexdigest (md5_digest bs))))"

text \<open>
  \<^verbatim>\<open>scripts/generate_thumbnails.py\<close>, \<^verbatim>\<open>get_file_id(file_path: Path)\<close>:
  \<^verbatim>\<open>hashlib.md5(str(file_path).encode()).hexdigest()[:16]\<close>
\<close>

definition legacy_get_file_id :: "path \<Rightarrow> exn + pystr" where
  "legacy_get_file_id file_path =
     (case str_encode (path_str file_path) of
        Inl e \<Rightarrow> Inl e
      | Inr bs \<Rightarrow> Inr (take 16 (hexdigest (md5_digest bs))))"

section \<open>NumPy values\<close>

text \<open>
  A trajectory array is a sequence of pose vectors along its first axis; \<^verbatim>\<open>len\<close>
  is the number of frames. \<^verbatim>\<open>np.load\<close> returns the array itself for a
  single-array file and a lazily read dictionary of named arrays (an
  \<^verbatim>\<open>NpzFile\<close>) for a multi-array container.
\<close>

datatype 'a npfile = NpyArray 'a | NpzFile "pystr \<Rightarrow> 'a option"

text \<open>
  \<^verbatim>\<open>np.linspace(start, stop, num, dtype=int)\<close> with the end point included:
  sample \<open>i\<close> is \<open>start + i * step\<close> with \<open>step = (stop - start) / (num - 1)\<close>,
  the last sample is set to \<open>stop\<close> itself, and the result is rounded towards minus
  infinity (NumPy 1.20 and later) before the conversion to integers. NumPy computes the
  samples in double precision; for \<open>num = 30\<close> and every array length below \<open>2^40\<close>
  the rounded result equals the exact quotient written here, since a product
  \<open>i * (stop - start)\<close> that 29 does not divide is at least \<open>1/29\<close> away from the
  next integer.
\<close>

definition linspace_int :: "int \<Rightarrow> int \<Rightarrow> nat \<Rightarrow> int list" where
  "linspace_int start stop num =
     map (\<lambda>i. if num \<le> 1 then start
              else if i = num - 1 then stop
              else start + (int i * (stop - start)) div (int num - 1))
         [0..<num]"

text \<open>
  Indexing with an integer: a negative index counts from the end, an index out of
  range raises \<^verbatim>\<open>IndexError\<close>.
\<close>

definition py_index :: "'a list \<Rightarrow> int \<Rightarrow> exn + 'a" where
  "py_index xs i =
     (if 0 \<le> i \<and> i < int (length xs) then Inr (xs ! nat i)
      else if i < 0 \<and> - int (length xs) \<le> i then Inr (xs ! nat (int (length xs) + i))
      else Inl IndexError)"

text \<open>Sequencing of calls that may raise: the first exception ends the sequence.\<close>

definition and_then :: "exn + 'a \<Rightarrow> ('a \<Rightarrow> exn + 'b) \<Rightarrow> exn + 'b" where
  "and_then m f = (case m of Inl e \<Rightarrow> Inl e | Inr x \<Rightarrow> f x)"

section \<open>The collaborators: MuJoCo, the file system, the image writers\<close>

text \<open>
  The camera argument of \<^verbatim>\<open>Renderer.update_scene\<close>: the id of a camera of the
  model, the name of one, or an \<^verbatim>\<open>MjvCamera\<close> object set up as a free camera
  with its distance, azimuth, elevation and look-at point.
\<close>

datatype camera =
    CameraId nat
  | CameraName pystr
  | MjvCamera (cam_distance: real) (cam_azimuth: real) (cam_elevation: real)
      (cam_lookat: "real \<times> real \<times> real")

text \<open>
  A rendered frame: \<^verbatim>\<open>renderer.render()\<close> returns a pixel array of the height
  and width the renderer was created with.
\<close>

record 'px image =
  img_width :: nat
  img_height :: nat
  img_pixels :: 'px

text \<open>
  One call that writes an image file: \<^verbatim>\<open>Image.save\<close> of Pillow or
  \<^verbatim>\<open>imageio.mimsave\<close>, with the keyword arguments the scripts pass (\<open>None\<close>
  for an argument that is not passed).
\<close>

record 'px save_call =
  sv_path :: path
  sv_format :: "pystr option"
  sv_frames :: "'px image list"
  sv_duration :: "nat option"
  sv_loop :: "nat option"
  sv_quality :: "nat option"
  sv_method :: "nat option"
  sv_optimize :: "bool option"

text \<open>What a script has done to the file system, in order.\<close>

datatype 'px fs_event = Mkdir path | Saved "'px save_call"

text \<open>
  The collaborators are parameters of the model. Every call into a library may raise
  (\<open>Inl\<close>, or \<open>Some\<close> exception for a call without a result), except the tests
  \<^verbatim>\<open>Path.exists\<close> and \<^verbatim>\<open>Path.is_dir\<close> and the directory listing behind
  \<^verbatim>\<open>Path.glob\<close>, which are taken as total reads of the file system.
  \<open>camera_id\<close> is \<^verbatim>\<open>model.camera(name).id\<close>: \<open>None\<close> when the model
  document declares no camera of that name, where MuJoCo raises \<^verbatim>\<open>KeyError\<close>.
  Text printed to the terminal is not modelled.
\<close>

record ('m, 'd, 'q, 'r, 'px) env =
  path_exists :: "path \<Rightarrow> bool"
  is_dir :: "path \<Rightarrow> bool"
  listdir :: "path \<Rightarrow> pystr list"
  mkdir :: "path \<Rightarrow> exn option"
  np_load :: "path \<Rightarrow> exn + 'q list npfile"
  from_xml_path :: "pystr \<Rightarrow> exn + 'm"
  MjData :: "'m \<Rightarrow> exn + 'd"
  camera_id :: "'m \<Rightarrow> pystr \<Rightarrow> nat option"
  set_qpos :: "'d \<Rightarrow> 'q \<Rightarrow> exn + 'd"
  mj_forward :: "'m \<Rightarrow> 'd \<Rightarrow> exn + 'd"
  Renderer :: "'m \<Rightarrow> nat \<Rightarrow> nat \<Rightarrow> exn + 'r"
  update_scene :: "'r \<Rightarrow> 'd \<Rightarrow> camera \<Rightarrow> exn + 'r"
  render :: "'r \<Rightarrow> exn + 'px"
  image_save :: "'px save_call \<Rightarrow> exn option"

section \<open>The rendering pipeline of \<^verbatim>\<open>backend/scripts/generate_thumbnails.py\<close>\<close>

definition THUMBNAIL_SIZE :: "nat \<times> nat" where
  "THUMBNAIL_SIZE = (320, 320)"

definition DEFAULT_CAMERA_DISTANCE :: real where
  "DEFAULT_CAMERA_DISTANCE = 3.0"

definition DEFAULT_CAMERA_AZIMUTH :: real where
  "DEFAULT_CAMERA_AZIMUTH = 45"

definition DEFAULT_CAMERA_ELEVATION :: real where
  "DEFAULT_CAMERA_ELEVATION = - 20"

definition DEFAULT_CAMERA_LOOKAT :: "real list" where
  "DEFAULT_CAMERA_LOOKAT = [0, 0, 1]"

definition TRAJECTORY_FRAMES :: nat where
  "TRAJECTORY_FRAMES = 30"

definition ANIMATION_DURATION :: nat where
  "ANIMATION_DURATION = 100"

record generator =
  data_dir :: path
  models_dir :: path
  trajectories_dir :: path
  thumbnails_dir :: path

definition ThumbnailGenerator :: "path \<Rightarrow> generator" where
  "ThumbnailGenerator d =
     \<lparr>data_dir = d,
      models_dir = joinpath d (path_of_str (py ''models'')),
      trajectories_dir = joinpath d (path_of_str (py ''trajectories'')),
      thumbnails_dir = joinpath d (path_of_str (py ''thumbnails''))\<rparr>"

subsection \<open>\<^verbatim>\<open>render_with_camera\<close>\<close>

text \<open>
  \<^verbatim>\<open>camera.lookat[:] = lookat\<close> assigns into an array of three numbers: a
  sequence of three is copied, a sequence of one is broadcast, any other length raises
  \<^verbatim>\<open>ValueError\<close>.
\<close>

definition assign_lookat :: "real list \<Rightarrow> exn + real \<times> real \<times> real" where
  "assign_lookat l =
     (case l of
        [x, y, z] \<Rightarrow> Inr (x, y, z)
      | [x] \<Rightarrow> Inr (x, x, x)
      | _ \<Rightarrow> Inl ValueError)"

text \<open>
  Lines 102 to 109: the programmatic camera, each parameter
  \<^verbatim>\<open>x if x is not None else DEFAULT\<close>.
\<close>

definition custom_camera ::
  "real option \<Rightarrow> real option \<Rightarrow> real option \<Rightarrow> real list option \<Rightarrow> exn + camera" where
  "custom_camera distance azimuth elevation lookat =
     (let d = (case distance of Some v \<Rightarrow> v | None \<Rightarrow> DEFAULT_CAMERA_DISTANCE);
          a = (case azimuth of Some v \<Rightarrow> v | None \<Rightarrow> DEFAULT_CAMERA_AZIMUTH);
          e = (case elevation of Some v \<Rightarrow> v | None \<Rightarrow> DEFAULT_CAMERA_ELEVATION)
      in and_then
           (assign_lookat (case lookat of Some v \<Rightarrow> v | None \<Rightarrow> DEFAULT_CAMERA_LOOKAT))
           (\<lambda>l. Inr (MjvCamera d a e l)))"

text \<open>
  Lines 89 to 98: \<^verbatim>\<open>if camera_name:\<close> with the \<^verbatim>\<open>try\<close> around the camera
  lookup and \<^verbatim>\<open>update_scene\<close>. The result is \<open>None\<close> when
  \<^verbatim>\<open>camera_name\<close> is \<^verbatim>\<open>None\<close> or empty, or was reset to \<^verbatim>\<open>None\<close> by
  the \<^verbatim>\<open>except KeyError\<close> clause; otherwise it is the outcome of
  \<^verbatim>\<open>update_scene\<close> with the camera of the document.
\<close>

definition xml_camera_scene ::
  "('m, 'd, 'q, 'r, 'px) env \<Rightarrow> 'm \<Rightarrow> 'd \<Rightarrow> 'r \<Rightarrow> pystr option \<Rightarrow> (exn + 'r) option" where
  "xml_camera_scene mj model data renderer camera_name =
     (case camera_name of
        None \<Rightarrow> None
      | Some name \<Rightarrow>
          if name = [] then None
          else (case camera_id mj model name of
                  None \<Rightarrow> None
                | Some cid \<Rightarrow>
                    (case update_scene mj renderer data (CameraId cid) of
                       Inl e \<Rightarrow> (if e = KeyError then None else Some (Inl e))
                     | Inr r \<Rightarrow> Some (Inr r))))"

definition render_with_camera ::
  "('m, 'd, 'q, 'r, 'px) env \<Rightarrow> 'm \<Rightarrow> 'd \<Rightarrow> pystr option \<Rightarrow> real option \<Rightarrow> real option
     \<Rightarrow> real option \<Rightarrow> real list option \<Rightarrow> exn + 'px image" where
  "render_with_camera mj model data camera_name distance azimuth elevation lookat =
     and_then (Renderer mj model (snd THUMBNAIL_SIZE) (fst THUMBNAIL_SIZE)) (\<lambda>renderer.
     and_then
       (case xml_camera_scene mj model data renderer camera_name of
          Some scene \<Rightarrow> scene
        | None \<Rightarrow>
            and_then (custom_camera distance azimuth elevation lookat) (\<lambda>camera.
              update_scene mj renderer data camera))
       (\<lambda>renderer'.
     and_then (render mj renderer') (\<lambda>pixels.
       Inr \<lparr>img_width = fst THUMBNAIL_SIZE, img_height = snd THUMBNAIL_SIZE,
            img_pixels = pixels\<rparr>)))"

subsection \<open>\<^verbatim>\<open>render_model\<close>\<close>

text \<open>
  Lines 160 to 169: the identifier of the model and the place of its thumbnail. The
  identifier is computed from the string the caller passed; the directory from the
  parsed path.
\<close>

definition model_thumbnail_path :: "generator \<Rightarrow> pystr \<Rightarrow> exn + pystr \<times> path \<times> path" where
  "model_thumbnail_path self model_relative_path =
     and_then (get_file_id model_relative_path) (\<lambda>model_id.
       let rel_path = path_of_str model_relative_path;
           thumbnail_subdir =
             joinpath (joinpath (thumbnails_dir self) (path_of_str (py ''models'')))
               (parent rel_path);
           output_path = joinpath thumbnail_subdir (path_of_str (model_id @ py ''.webp''))
       in Inr (model_id, thumbnail_subdir, output_path))"

definition still_webp :: "path \<Rightarrow> 'px image \<Rightarrow> 'px save_call" where
  "still_webp output_path img =
     \<lparr>sv_path = output_path, sv_format = Some (py ''WEBP''), sv_frames = [img],
      sv_duration = None, sv_loop = None, sv_quality = Some 85, sv_method = Some 6,
      sv_optimize = None\<rparr>"

text \<open>The body of the \<^verbatim>\<open>try\<close> statement of \<^verbatim>\<open>render_model\<close>.\<close>

definition render_model_body ::
  "('m, 'd, 'q, 'r, 'px) env \<Rightarrow> generator \<Rightarrow> path \<Rightarrow> pystr \<Rightarrow> pystr option \<Rightarrow> real option
     \<Rightarrow> real option \<Rightarrow> real option \<Rightarrow> real list option \<Rightarrow> 'px fs_event list
     \<Rightarrow> (exn + unit) \<times> 'px fs_event list" where
  "render_model_body mj self model_path model_relative_path camera_name distance azimuth
       elevation lookat ev =
     (case model_thumbnail_path self model_relative_path of
        Inl e \<Rightarrow> (Inl e, ev)
      | Inr (model_id, thumbnail_subdir, output_path) \<Rightarrow>
          (case mkdir mj thumbnail_subdir of
             Some e \<Rightarrow> (Inl e, ev)
           | None \<Rightarrow>
               (case and_then (from_xml_path mj (path_str model_path)) (\<lambda>model.
                     and_then (MjData mj model) (\<lambda>data.
                     and_then (mj_forward mj model data) (\<lambda>data'.
                       render_with_camera mj model data' camera_name distance azimuth
                         elevation lookat))) of
                  Inl e \<Rightarrow> (Inl e, ev @ [Mkdir thumbnail_subdir])
                | Inr pixels \<Rightarrow>
                    (case image_save mj (still_webp output_path pixels) of
                       Some e \<Rightarrow> (Inl e, ev @ [Mkdir thumbnail_subdir])
                     | None \<Rightarrow>
                         (Inr (), ev @ [Mkdir thumbnail_subdir,
                                        Saved (still_webp output_path pixels)])))))"

text \<open>
  \<^verbatim>\<open>render_model\<close>: the two tests before the \<^verbatim>\<open>try\<close>, and
  \<^verbatim>\<open>except Exception\<close> turning every exception of the body into \<^verbatim>\<open>False\<close>.
  The result type keeps a place for an exception that leaves the function.
\<close>

definition render_model ::
  "('m, 'd, 'q, 'r, 'px) env \<Rightarrow> generator \<Rightarrow> pystr \<Rightarrow> pystr option \<Rightarrow> real option
     \<Rightarrow> real option \<Rightarrow> real option \<Rightarrow> real list option \<Rightarrow> 'px fs_event list
     \<Rightarrow> (exn + bool) \<times> 'px fs_event list" where
  "render_model mj self model_relative_path camera_name distance azimuth elevation lookat ev =
     (let model_path = joinpath (models_dir self) (path_of_str model_relative_path) in
      if \<not> path_exists mj model_path then (Inr False, ev)
      else if suffix model_path \<noteq> py ''.xml'' then (Inr False, ev)
      else (case render_model_body mj self model_path model_relative_path camera_name
                   distance azimuth elevation lookat ev of
              (Inl e, ev') \<Rightarrow> (Inr False, ev')
            | (Inr u, ev') \<Rightarrow> (Inr True, ev')))"

subsection \<open>\<^verbatim>\<open>render_trajectory\<close>\<close>

text \<open>Lines 232 to 241: the identifier of the trajectory and the place of its animation.\<close>

definition trajectory_thumbnail_path ::
  "generator \<Rightarrow> path \<Rightarrow> exn + pystr \<times> path \<times> path" where
  "trajectory_thumbnail_path self trajectory_path =
     and_then (relative_to trajectory_path (trajectories_dir self)) (\<lambda>rel_path.
     and_then (get_file_id (path_str rel_path)) (\<lambda>trajectory_id.
       let thumbnail_subdir =
             joinpath (joinpath (thumbnails_dir self) (path_of_str (py ''trajectories'')))
               (parent rel_path);
           output_path = joinpath thumbnail_subdir (path_of_str (trajectory_id @ py ''.webp''))
       in Inr (trajectory_id, thumbnail_subdir, output_path)))"

text \<open>Lines 252 to 258: the pose sequence of the loaded file.\<close>

definition select_qpos :: "'a npfile \<Rightarrow> exn + 'a" where
  "select_qpos trajectory_data =
     (case trajectory_data of
        NpzFile arrays \<Rightarrow>
          (case arrays (py ''qpos_traj'') of None \<Rightarrow> Inl KeyError | Some a \<Rightarrow> Inr a)
      | NpyArray a \<Rightarrow> Inr a)"

text \<open>Lines 260 to 263: the frames to render.\<close>

definition frame_indices :: "'q list \<Rightarrow> int list" where
  "frame_indices qpos_data =
     (let total_frames = int (length qpos_data)
      in linspace_int 0 (total_frames - 1) TRAJECTORY_FRAMES)"

text \<open>
  Lines 266 to 274: the loop over the sampled indices. The data object is updated in
  place, so each frame starts from the data the frame before left.
\<close>

fun render_frames ::
  "('m, 'd, 'q, 'r, 'px) env \<Rightarrow> 'm \<Rightarrow> 'd \<Rightarrow> 'q list \<Rightarrow> pystr option \<Rightarrow> real option
     \<Rightarrow> real option \<Rightarrow> real option \<Rightarrow> real list option \<Rightarrow> int list \<Rightarrow> exn + 'px image list" where
  "render_frames mj model data qpos_data camera_name distance azimuth elevation lookat [] =
     Inr []"
| "render_frames mj model data qpos_data camera_name distance azimuth elevation lookat
       (idx # rest) =
     (case py_index qpos_data idx of
        Inl e \<Rightarrow> Inl e
      | Inr q \<Rightarrow>
     (case set_qpos mj data q of
        Inl e \<Rightarrow> Inl e
      | Inr data1 \<Rightarrow>
     (case mj_forward mj model data1 of
        Inl e \<Rightarrow> Inl e
      | Inr data2 \<Rightarrow>
     (case render_with_camera mj model data2 camera_name distance azimuth elevation lookat of
        Inl e \<Rightarrow> Inl e
      | Inr pixels \<Rightarrow>
     (case render_frames mj model data2 qpos_data camera_name distance azimuth elevation
             lookat rest of
        Inl e \<Rightarrow> Inl e
      | Inr frames \<Rightarrow> Inr (pixels # frames))))))"

text \<open>
  Lines 277 to 289: \<^verbatim>\<open>pil_frames[0].save(output_path, "WEBP", save_all=True,
  append_images=pil_frames[1:], duration=ANIMATION_DURATION, loop=0, quality=85,
  method=6)\<close>. A loop count of 0 makes the animation repeat forever.
\<close>

definition animated_webp :: "path \<Rightarrow> 'px image list \<Rightarrow> 'px save_call" where
  "animated_webp output_path frames =
     \<lparr>sv_path = output_path, sv_format = Some (py ''WEBP''), sv_frames = frames,
      sv_duration = Some ANIMATION_DURATION, sv_loop = Some 0, sv_quality = Some 85,
      sv_method = Some 6, sv_optimize = None\<rparr>"

definition load_and_render ::
  "('m, 'd, 'q, 'r, 'px) env \<Rightarrow> path \<Rightarrow> path \<Rightarrow> pystr option \<Rightarrow> real option \<Rightarrow> real option
     \<Rightarrow> real option \<Rightarrow> real list option \<Rightarrow> exn + 'px image list" where
  "load_and_render mj model_path trajectory_path camera_name distance azimuth elevation lookat =
     and_then (from_xml_path mj (path_str model_path)) (\<lambda>model.
     and_then (MjData mj model) (\<lambda>data.
     and_then (np_load mj trajectory_path) (\<lambda>trajectory_data.
     and_then (select_qpos trajectory_data) (\<lambda>qpos_data.
       render_frames mj model data qpos_data camera_name distance azimuth elevation lookat
         (frame_indices qpos_data)))))"

text \<open>The body of the \<^verbatim>\<open>try\<close> statement of \<^verbatim>\<open>render_trajectory\<close>.\<close>

definition render_trajectory_body ::
  "('m, 'd, 'q, 'r, 'px) env \<Rightarrow> generator \<Rightarrow> path \<Rightarrow> path \<Rightarrow> pystr option \<Rightarrow> real option
     \<Rightarrow> real option \<Rightarrow> real option \<Rightarrow> real list option \<Rightarrow> 'px fs_event list
     \<Rightarrow> (exn + unit) \<times> 'px fs_event list" where
  "render_trajectory_body mj self model_path trajectory_path camera_name distance azimuth
       elevation lookat ev =
     (case trajectory_thumbnail_path self trajectory_path of
        Inl e \<Rightarrow> (Inl e, ev)
      | Inr (trajectory_id, thumbnail_subdir, output_path) \<Rightarrow>
          (case mkdir mj thumbnail_subdir of
             Some e \<Rightarrow> (Inl e, ev)
           | None \<Rightarrow>
               (case load_and_render mj model_path trajectory_path camera_name distance
                       azimuth elevation lookat of
                  Inl e \<Rightarrow> (Inl e, ev @ [Mkdir thumbnail_subdir])
                | Inr [] \<Rightarrow> (Inl IndexError, ev @ [Mkdir thumbnail_subdir])
                | Inr (f # fs) \<Rightarrow>
                    (case image_save mj (animated_webp output_path (f # fs)) of
                       Some e \<Rightarrow> (Inl e, ev @ [Mkdir thumbnail_subdir])
                     | None \<Rightarrow>
                         (Inr (), ev @ [Mkdir thumbnail_subdir,
                                        Saved (animated_webp output_path (f # fs))])))))"

definition render_trajectory ::
  "('m, 'd, 'q, 'r, 'px) env \<Rightarrow> generator \<Rightarrow> path \<Rightarrow> pystr \<Rightarrow> pystr option \<Rightarrow> real option
     \<Rightarrow> real option \<Rightarrow> real option \<Rightarrow> real list option \<Rightarrow> 'px fs_event list
     \<Rightarrow> (exn + bool) \<times> 'px fs_event list" where
  "render_trajectory mj self trajectory_path model_relative_path camera_name distance azimuth
       elevation lookat ev =
     (let model_path = joinpath (models_dir self) (path_of_str model_relative_path) in
      if \<not> path_exists mj model_path then (Inr False, ev)
      else if suffix model_path \<noteq> py ''.xml'' then (Inr False, ev)
      else (case render_trajectory_body mj self model_path trajectory_path camera_name
                   distance azimuth elevation lookat ev of
              (Inl e, ev') \<Rightarrow> (Inr False, ev')
            | (Inr u, ev') \<Rightarrow> (Inr True, ev')))"

subsection \<open>\<^verbatim>\<open>render_trajectories_in_folder\<close>\<close>





section \<open>The rendering pipeline of \<^verbatim>\<open>scripts/generate_thumbnails.py\<close>\<close>

text \<open>
  The second script declares a class and constants of the same names; here they carry
  the prefix \<open>legacy\<close>. Its \<^verbatim>\<open>get_file_id\<close> is \<open>legacy_get_file_id\<close> above.
\<close>

definition legacy_THUMBNAIL_SIZE :: "nat \<times> nat" where
  "legacy_THUMBNAIL_SIZE = (160, 160)"

definition legacy_TRAJECTORY_FRAMES :: nat where
  "legacy_TRAJECTORY_FRAMES = 30"

definition GIF_DURATION :: nat where
  "GIF_DURATION = 100"

text \<open>Lines 96 to 98 of \<^verbatim>\<open>generate_trajectory_gif\<close>.\<close>

definition legacy_trajectory_thumbnail_path :: "generator \<Rightarrow> path \<Rightarrow> exn + pystr \<times> path" where
  "legacy_trajectory_thumbnail_path self trajectory_path =
     and_then (relative_to trajectory_path (trajectories_dir self)) (\<lambda>rel_path.
     and_then (legacy_get_file_id rel_path) (\<lambda>trajectory_id.
       Inr (trajectory_id,
            joinpath (joinpath (thumbnails_dir self) (path_of_str (py ''trajectories'')))
              (path_of_str (trajectory_id @ py ''.gif'')))))"

text \<open>Lines 72 to 74 of \<^verbatim>\<open>generate_model_thumbnail\<close>.\<close>

definition legacy_model_thumbnail_path :: "generator \<Rightarrow> path \<Rightarrow> exn + pystr \<times> path" where
  "legacy_model_thumbnail_path self model_path =
     and_then (relative_to model_path (models_dir self)) (\<lambda>rel_path.
     and_then (legacy_get_file_id rel_path) (\<lambda>model_id.
       Inr (model_id,
            joinpath (joinpath (thumbnails_dir self) (path_of_str (py ''models'')))
              (path_of_str (model_id @ py ''.png'')))))"

text \<open>Lines 107 to 113.\<close>

definition legacy_select_qpos :: "'a npfile \<Rightarrow> exn + 'a" where
  "legacy_select_qpos trajectory_data =
     (case trajectory_data of
        NpzFile arrays \<Rightarrow>
          (case arrays (py ''qpos'') of None \<Rightarrow> Inl KeyError | Some a \<Rightarrow> Inr a)
      | NpyArray a \<Rightarrow> Inr a)"

text \<open>Lines 115 to 118.\<close>

definition legacy_frame_indices :: "'q list \<Rightarrow> int list" where
  "legacy_frame_indices qpos_data =
     (let total_frames = int (length qpos_data)
      in linspace_int 0 (total_frames - 1) legacy_TRAJECTORY_FRAMES)"

text \<open>
  Lines 124 to 133: one renderer serves all frames, and every frame is drawn through
  the camera named \<^verbatim>\<open>free\<close>.
\<close>

fun legacy_render_frames ::
  "('m, 'd, 'q, 'r, 'px) env \<Rightarrow> 'm \<Rightarrow> 'd \<Rightarrow> 'r \<Rightarrow> 'q list \<Rightarrow> int list
     \<Rightarrow> exn + 'px image list" where
  "legacy_render_frames mj model data renderer qpos_data [] = Inr []"
| "legacy_render_frames mj model data renderer qpos_data (idx # rest) =
     (case py_index qpos_data idx of
        Inl e \<Rightarrow> Inl e
      | Inr q \<Rightarrow>
     (case set_qpos mj data q of
        Inl e \<Rightarrow> Inl e
      | Inr data1 \<Rightarrow>
     (case mj_forward mj model data1 of
        Inl e \<Rightarrow> Inl e
      | Inr data2 \<Rightarrow>
     (case update_scene mj renderer data2 (CameraName (py ''free'')) of
        Inl e \<Rightarrow> Inl e
      | Inr renderer' \<Rightarrow>
     (case render mj renderer' of
        Inl e \<Rightarrow> Inl e
      | Inr pixels \<Rightarrow>
     (case legacy_render_frames mj model data2 renderer' qpos_data rest of
        Inl e \<Rightarrow> Inl e
      | Inr frames \<Rightarrow>
          Inr (\<lparr>img_width = fst legacy_THUMBNAIL_SIZE, img_height = snd legacy_THUMBNAIL_SIZE,
                img_pixels = pixels\<rparr> # frames)))))))"

text \<open>
  Lines 139 to 144: \<^verbatim>\<open>imageio.mimsave(output_path, frames, duration=GIF_DURATION,
  loop=0)\<close>. The format follows from the extension of the path; no quality and no
  compression method is passed.
\<close>

definition animated_gif :: "path \<Rightarrow> 'px image list \<Rightarrow> 'px save_call" where
  "animated_gif output_path frames =
     \<lparr>sv_path = output_path, sv_format = None, sv_frames = frames,
      sv_duration = Some GIF_DURATION, sv_loop = Some 0, sv_quality = None,
      sv_method = None, sv_optimize = None\<rparr>"

definition legacy_load_and_render ::
  "('m, 'd, 'q, 'r, 'px) env \<Rightarrow> path \<Rightarrow> path \<Rightarrow> exn + 'px image list" where
  "legacy_load_and_render mj model_path trajectory_path =
     and_then (from_xml_path mj (path_str model_path)) (\<lambda>model.
     and_then (MjData mj model) (\<lambda>data.
     and_then (np_load mj trajectory_path) (\<lambda>trajectory_data.
     and_then (legacy_select_qpos trajectory_data) (\<lambda>qpos_data.
     and_then (Renderer mj model (snd legacy_THUMBNAIL_SIZE) (fst legacy_THUMBNAIL_SIZE))
       (\<lambda>renderer.
         legacy_render_frames mj model data renderer qpos_data
           (legacy_frame_indices qpos_data))))))"

text \<open>
  \<^verbatim>\<open>generate_trajectory_gif\<close>: the whole function is one \<^verbatim>\<open>try\<close> statement.
\<close>

definition generate_trajectory_gif ::
  "('m, 'd, 'q, 'r, 'px) env \<Rightarrow> generator \<Rightarrow> path \<Rightarrow> path \<Rightarrow> 'px fs_event list
     \<Rightarrow> (exn + bool) \<times> 'px fs_event list" where
  "generate_trajectory_gif mj self model_path trajectory_path ev =
     (case legacy_trajectory_thumbnail_path self trajectory_path of
        Inl e \<Rightarrow> (Inr False, ev)
      | Inr (trajectory_id, output_path) \<Rightarrow>
          (case legacy_load_and_render mj model_path trajectory_path of
             Inl e \<Rightarrow> (Inr False, ev)
           | Inr frames \<Rightarrow>
               (case image_save mj (animated_gif output_path frames) of
                  Some e \<Rightarrow> (Inr False, ev)
                | None \<Rightarrow> (Inr True, ev @ [Saved (animated_gif output_path frames)]))))"

section \<open>The request layer of \<^verbatim>\<open>backend/main.py\<close>\<close>

text \<open>
  A handler either raises \<^verbatim>\<open>HTTPException(status_code, detail)\<close> or returns its
  response body. The store (\<^verbatim>\<open>from storage import storage\<close>) is a parameter: a
  call of one of its methods takes the state of the store and returns the new state
  with either the message of the exception it raised (\<open>Inl\<close>) or its result
  (\<open>Inr\<close>). The upload has already been received: \<^verbatim>\<open>file.filename\<close> is a
  string and \<^verbatim>\<open>await file.read()\<close> yields the content.
\<close>

datatype 'a http = HTTPException nat pystr | Response 'a

record 'a upload_response =
  up_success :: bool
  up_message :: pystr
  up_item :: 'a

text \<open>Lines 121 to 155.\<close>

definition upload_trajectory ::
  "(pystr \<Rightarrow> 'c \<Rightarrow> pystr option \<Rightarrow> 'st \<Rightarrow> (pystr + 'a) \<times> 'st) \<Rightarrow> pystr \<Rightarrow> 'c \<Rightarrow> pystr option
     \<Rightarrow> 'st \<Rightarrow> 'a upload_response http \<times> 'st" where
  "upload_trajectory save_trajectory filename content category st =
     (if \<not> (endswith filename (py ''.npy'') \<or> endswith filename (py ''.npz'')) then
        (HTTPException 400 (py ''Only .npy and .npz files are supported''), st)
      else
        (case save_trajectory filename content category st of
           (Inl msg, st') \<Rightarrow>
             (HTTPException 500 (py ''Failed to upload trajectory: '' @ msg), st')
         | (Inr trajectory, st') \<Rightarrow>
             (Response \<lparr>up_success = True,
                        up_message = py ''Trajectory uploaded successfully'',
                        up_item = trajectory\<rparr>, st')))"

text \<open>Lines 198 to 232.\<close>

definition upload_model ::
  "(pystr \<Rightarrow> 'c \<Rightarrow> pystr option \<Rightarrow> 'st \<Rightarrow> (pystr + 'a) \<times> 'st) \<Rightarrow> pystr \<Rightarrow> 'c \<Rightarrow> pystr option
     \<Rightarrow> 'st \<Rightarrow> 'a upload_response http \<times> 'st" where
  "upload_model save_model filename content model_name st =
     (if \<not> endswith filename (py ''.xml'') then
        (HTTPException 400 (py ''Only .xml files are supported''), st)
      else
        (case save_model filename content model_name st of
           (Inl msg, st') \<Rightarrow>
             (HTTPException 500 (py ''Failed to upload model: '' @ msg), st')
         | (Inr model, st') \<Rightarrow>
             (Response \<lparr>up_success = True,
                        up_message = py ''Model uploaded successfully'',
                        up_item = model\<rparr>, st')))"

text \<open>
  Lines 247 to 256. \<^verbatim>\<open>storage.get_model_directory_files(model_id)\<close> returns a
  list of file names or \<^verbatim>\<open>None\<close>; \<^verbatim>\<open>if not files\<close> holds for
  \<^verbatim>\<open>None\<close> and for the empty list.
\<close>

definition list_model_files ::
  "(pystr \<Rightarrow> pystr list option) \<Rightarrow> pystr \<Rightarrow> pystr list http" where
  "list_model_files get_model_directory_files model_id =
     (case get_model_directory_files model_id of
        None \<Rightarrow> HTTPException 404 (py ''Model not found'')
      | Some files \<Rightarrow>
          if files = [] then HTTPException 404 (py ''Model not found'')
          else Response files)"

section \<open>A small world for running the model\<close>

text \<open>
  A data directory \<^verbatim>\<open>/data\<close> whose folders list four single-array files, one of
  them unreadable, one multi-array container and a text file. The model is a token
  that declares one camera, \<^verbatim>\<open>track\<close>; the data object remembers the pose set
  last, and a rendered frame is the pose together with the camera it was drawn through.
\<close>

definition demo_env :: "(unit, nat, nat, (nat \<times> camera) option, nat \<times> camera) env" where
  "demo_env =
     \<lparr>path_exists = (\<lambda>p. True),
      is_dir = (\<lambda>p. True),
      listdir = (\<lambda>p. [py ''a.npy'', py ''b.npz'', py ''bad.npy'', py ''c.npy'',
                       py ''notes.txt'', py ''d.npy'']),
      mkdir = (\<lambda>p. None),
      np_load = (\<lambda>p. if path_name p = py ''bad.npy'' then Inl LibraryError
                     else if endswith (path_name p) (py ''.npz'')
                     then Inr (NpzFile (\<lambda>k. if k = py ''qpos_traj'' then Some [7, 8, 9] else None))
                     else Inr (NpyArray [1, 2, 3, 4, 5])),
      from_xml_path = (\<lambda>s. Inr ()),
      MjData = (\<lambda>m. Inr 0),
      camera_id = (\<lambda>m name. if name = py ''track'' then Some 0 else None),
      set_qpos = (\<lambda>d q. Inr q),
      mj_forward = (\<lambda>m d. Inr d),
      Renderer = (\<lambda>m h w. Inr None),
      update_scene = (\<lambda>r d c. Inr (Some (d, c))),
      render = (\<lambda>r. case r of None \<Rightarrow> Inl LibraryError | Some v \<Rightarrow> Inr v),
      image_save = (\<lambda>c. None)\<rparr>"

definition demo_generator :: generator where
  "demo_generator = ThumbnailGenerator (Path [slash] [py ''data''])"

section \<open>Verified properties\<close>

subsection \<open>Encoding and digest\<close>

lemma str_encode_total:
  "\<forall>c\<in>set p. \<not> is_surrogate c \<Longrightarrow> \<exists>bs. str_encode p = Inr bs"
proof (induction p)
  case Nil
  then show ?case by simp
next
  case (Cons c cs)
  then obtain rest where rest: "str_encode cs = Inr rest" by auto
  from Cons.prems have "\<not> is_surrogate c" by simp
  then have "\<exists>bs. utf8_encode_cp c = Inr bs"
    by (simp add: utf8_encode_cp_def)
  with rest show ?case by auto
qed

lemma utf8_encode_cp_surrogate:
  "is_surrogate c \<Longrightarrow> utf8_encode_cp c = Inl UnicodeEncodeError"
  by (simp add: utf8_encode_cp_def is_surrogate_def)

lemma utf8_encode_cp_error:
  "utf8_encode_cp c = Inl e \<Longrightarrow> e = UnicodeEncodeError"
  by (auto simp: utf8_encode_cp_def split: if_splits)

lemma str_encode_error:
  "str_encode p = Inl e \<Longrightarrow> e = UnicodeEncodeError"
  by (induction p) (auto split: sum.splits dest: utf8_encode_cp_error)

lemma str_encode_surrogate:
  "\<exists>c\<in>set p. is_surrogate c \<Longrightarrow> str_encode p = Inl UnicodeEncodeError"
proof (induction p)
  case Nil
  then show ?case by simp
next
  case (Cons c cs)
  show ?case
  proof (cases "is_surrogate c")
    case True
    then show ?thesis by (simp add: utf8_encode_cp_surrogate)
  next
    case False
    with Cons have "str_encode cs = Inl UnicodeEncodeError" by auto
    then show ?thesis by (auto split: sum.splits dest: utf8_encode_cp_error)
  qed
qed

lemma le_bytes_length: "length (le_bytes k w) = k"
  by (simp add: le_bytes_def)

lemma md5_digest_length: "length (md5_digest bs) = 16"
  by (simp add: md5_digest_def le_bytes_length split: prod.splits)

lemma hexdigest_length: "length (hexdigest bs) = 2 * length bs"
  by (induction bs) (simp_all add: hexdigest_def)

lemma hex_digit_is_hex: "d < 16 \<Longrightarrow> is_hex_char (hex_digit d)"
  by (simp add: hex_digit_def is_hex_char_def)

lemma byte_nibbles: "unat (b :: byte) div 16 < 16" "unat b mod 16 < 16"
proof -
  have "unat b < 256" using unsigned_less [of b] by simp
  then show "unat b div 16 < 16" by simp
  show "unat b mod 16 < 16" by simp
qed

lemma hexdigest_is_hex: "list_all is_hex_char (hexdigest bs)"
  by (induction bs) (simp_all add: hexdigest_def hex_digit_is_hex byte_nibbles)

lemma file_id_of_bytes:
  "length (take 16 (hexdigest (md5_digest bs))) = 16"
  "list_all is_hex_char (take 16 (hexdigest (md5_digest bs)))"
proof -
  show "length (take 16 (hexdigest (md5_digest bs))) = 16"
    by (simp add: hexdigest_length md5_digest_length)
  have "list_all is_hex_char (hexdigest (md5_digest bs))"
    by (rule hexdigest_is_hex)
  then show "list_all is_hex_char (take 16 (hexdigest (md5_digest bs)))"
    by (auto simp: list_all_iff dest: in_set_takeD)
qed

lemma get_file_id_cases:
  "get_file_id p = Inl UnicodeEncodeError \<and> (\<exists>c\<in>set p. is_surrogate c) \<or>
   (\<exists>d. get_file_id p = Inr d \<and> length d = 16 \<and> list_all is_hex_char d
        \<and> (\<forall>c\<in>set p. \<not> is_surrogate c))"
proof (cases "\<exists>c\<in>set p. is_surrogate c")
  case True
  then show ?thesis by (simp add: get_file_id_def str_encode_surrogate)
next
  case False
  then obtain bs where "str_encode p = Inr bs"
    using str_encode_total [of p] by auto
  with False show ?thesis
    using file_id_of_bytes [of bs] by (simp add: get_file_id_def)
qed

lemma get_file_id_Inr:
  "get_file_id p = Inr d \<Longrightarrow> length d = 16 \<and> list_all is_hex_char d"
  using get_file_id_cases [of p] by auto

lemma legacy_get_file_id_eq:
  "legacy_get_file_id file_path = get_file_id (path_str file_path)"
  by (simp add: legacy_get_file_id_def get_file_id_def)

subsection \<open>C1: the identifier function\<close>

text \<open>
  C1. The claim says that the identifier function never fails for any input string.
  \<^verbatim>\<open>str.encode()\<close> is strict UTF-8: on a string that holds a surrogate code
  point the call raises \<^verbatim>\<open>UnicodeEncodeError\<close> before any digest is computed.
\<close>

theorem get_file_id_surrogate_counterexample:
  "get_file_id [0xDC80] = Inl UnicodeEncodeError"
  by (simp add: get_file_id_def utf8_encode_cp_def is_surrogate_def)

text \<open>
  C1, as amended. For every relative-path string \<open>p\<close> without surrogate code points,
  \<open>get_file_id p\<close> returns a string of exactly 16 lower-case hexadecimal characters
  (the first 16 of the 32 characters of the MD5 hex digest of the UTF-8 bytes of \<open>p\<close>).
  The result is a function of \<open>p\<close> alone, and the second script, which is handed a
  \<^verbatim>\<open>Path\<close> and hashes \<^verbatim>\<open>str(file_path)\<close>, returns the same identifier for
  every path whose string is \<open>p\<close>.
\<close>

theorem get_file_id_fixed_length:
  assumes "\<forall>c\<in>set p. \<not> is_surrogate c"
  shows "\<exists>d. get_file_id p = Inr d \<and> length d = 16 \<and> list_all is_hex_char d
           \<and> (\<forall>file_path. path_str file_path = p \<longrightarrow> legacy_get_file_id file_path = Inr d)"
proof -
  from assms obtain d where d: "get_file_id p = Inr d" "length d = 16" "list_all is_hex_char d"
    using get_file_id_cases [of p] by auto
  then have "\<forall>file_path. path_str file_path = p \<longrightarrow> legacy_get_file_id file_path = Inr d"
    by (simp add: legacy_get_file_id_eq)
  with d show ?thesis by blast
qed

theorem get_file_id_fixed_length_witness:
  "\<exists>d. get_file_id (py ''locomotion/walk.npy'') = Inr d \<and> length d = 16
       \<and> list_all is_hex_char d
       \<and> legacy_get_file_id (Path [] [py ''locomotion'', py ''walk.npy'']) = Inr d"
proof -
  have no_sur: "\<forall>c\<in>set (py ''locomotion/walk.npy''). \<not> is_surrogate c"
    by (simp add: py_def is_surrogate_def)
  have str: "path_str (Path [] [py ''locomotion'', py ''walk.npy'']) = py ''locomotion/walk.npy''"
    by (simp add: path_str_def py_def slash_def)
  from get_file_id_fixed_length [OF no_sur] str show ?thesis by blast
qed

subsection \<open>C10: the listing of a model's files\<close>

text \<open>
  C10. The endpoint that lists the files of a model answers 404 "Model not found" both
  when the store finds no model for the identifier (\<^verbatim>\<open>None\<close>) and when the store
  finds the model and returns an empty list, so the two answers are equal; only a
  non-empty list is returned to the caller.
\<close>

theorem list_model_files_conflates:
  assumes "no_model model_id = None" and "no_files model_id = Some []"
  shows "list_model_files no_model model_id = HTTPException 404 (py ''Model not found'')
       \<and> list_model_files no_files model_id = HTTPException 404 (py ''Model not found'')
       \<and> list_model_files no_files model_id = list_model_files no_model model_id
       \<and> (\<forall>store f fs. store model_id = Some (f # fs)
             \<longrightarrow> list_model_files store model_id = Response (f # fs))"
  using assms by (simp add: list_model_files_def)

theorem list_model_files_conflates_witness:
  "list_model_files (\<lambda>i. None) (py ''8942fce567a31db0'')
     = HTTPException 404 (py ''Model not found'')
   \<and> list_model_files (\<lambda>i. Some []) (py ''8942fce567a31db0'')
     = list_model_files (\<lambda>i. None) (py ''8942fce567a31db0'')"
  using list_model_files_conflates
    [of "\<lambda>i. None" "py ''8942fce567a31db0''" "\<lambda>i. Some []"]
  by simp

subsection \<open>C9: the defaults of the programmatic camera\<close>

text \<open>
  C9. With no camera name, the frame is drawn through the programmatic camera. With no
  parameter supplied that camera has distance 3.0, azimuth 45, elevation -20 and
  look-at point (0, 0, 1). Each parameter takes its default exactly when the caller
  leaves it \<^verbatim>\<open>None\<close>; a supplied value, zero included, replaces the default of
  that parameter and of no other.
\<close>

theorem custom_camera_defaults:
  "custom_camera None None None None = Inr (MjvCamera 3.0 45 (- 20) (0, 0, 1))
   \<and> custom_camera distance azimuth elevation (map_option (\<lambda>(x, y, z). [x, y, z]) lookat3)
       = Inr (MjvCamera (case distance of None \<Rightarrow> 3.0 | Some v \<Rightarrow> v)
                        (case azimuth of None \<Rightarrow> 45 | Some v \<Rightarrow> v)
                        (case elevation of None \<Rightarrow> - 20 | Some v \<Rightarrow> v)
                        (case lookat3 of None \<Rightarrow> (0, 0, 1) | Some v \<Rightarrow> v))
   \<and> render_with_camera mj model data None distance azimuth elevation lookat
       = and_then (Renderer mj model 320 320) (\<lambda>renderer.
         and_then (custom_camera distance azimuth elevation lookat) (\<lambda>camera.
         and_then (update_scene mj renderer data camera) (\<lambda>renderer'.
         and_then (render mj renderer') (\<lambda>pixels.
           Inr \<lparr>img_width = 320, img_height = 320, img_pixels = pixels\<rparr>))))"
proof -
  have defaults: "custom_camera None None None None = Inr (MjvCamera 3.0 45 (- 20) (0, 0, 1))"
    by (simp add: custom_camera_def assign_lookat_def and_then_def
        DEFAULT_CAMERA_DISTANCE_def DEFAULT_CAMERA_AZIMUTH_def DEFAULT_CAMERA_ELEVATION_def
        DEFAULT_CAMERA_LOOKAT_def)
  have each: "custom_camera distance azimuth elevation (map_option (\<lambda>(x, y, z). [x, y, z]) lookat3)
       = Inr (MjvCamera (case distance of None \<Rightarrow> 3.0 | Some v \<Rightarrow> v)
                        (case azimuth of None \<Rightarrow> 45 | Some v \<Rightarrow> v)
                        (case elevation of None \<Rightarrow> - 20 | Some v \<Rightarrow> v)
                        (case lookat3 of None \<Rightarrow> (0, 0, 1) | Some v \<Rightarrow> v))"
    by (simp add: custom_camera_def assign_lookat_def and_then_def
        DEFAULT_CAMERA_DISTANCE_def DEFAULT_CAMERA_AZIMUTH_def DEFAULT_CAMERA_ELEVATION_def
        DEFAULT_CAMERA_LOOKAT_def split: option.splits prod.splits)
  have unnamed: "render_with_camera mj model data None distance azimuth elevation lookat
       = and_then (Renderer mj model 320 320) (\<lambda>renderer.
         and_then (custom_camera distance azimuth elevation lookat) (\<lambda>camera.
         and_then (update_scene mj renderer data camera) (\<lambda>renderer'.
         and_then (render mj renderer') (\<lambda>pixels.
           Inr \<lparr>img_width = 320, img_height = 320, img_pixels = pixels\<rparr>))))"
    by (simp add: render_with_camera_def xml_camera_scene_def and_then_def THUMBNAIL_SIZE_def
        split: sum.splits)
  from defaults each unnamed show ?thesis by blast
qed

subsection \<open>C6: a named camera that the document does not declare\<close>

lemma xml_camera_scene_missing:
  "camera_id mj model name = None \<Longrightarrow> xml_camera_scene mj model data renderer (Some name) = None"
  by (simp add: xml_camera_scene_def)

text \<open>
  C6. When the requested camera name is not a camera of the model document,
  \<^verbatim>\<open>render_with_camera\<close> does exactly what it does with no camera name: it draws
  the frame through the programmatic camera built from the distance, azimuth,
  elevation and look-at arguments (or their defaults). Whenever the renderer draws
  that camera's frame, the call returns it.
\<close>

theorem render_with_camera_fallback:
  assumes "camera_id mj model name = None"
  shows "render_with_camera mj model data (Some name) distance azimuth elevation lookat
           = render_with_camera mj model data None distance azimuth elevation lookat
       \<and> (\<forall>renderer camera renderer' pixels.
            Renderer mj model 320 320 = Inr renderer
            \<and> custom_camera distance azimuth elevation lookat = Inr camera
            \<and> update_scene mj renderer data camera = Inr renderer'
            \<and> render mj renderer' = Inr pixels
            \<longrightarrow> render_with_camera mj model data (Some name) distance azimuth elevation lookat
                  = Inr \<lparr>img_width = 320, img_height = 320, img_pixels = pixels\<rparr>)"
proof -
  have same: "render_with_camera mj model data (Some name) distance azimuth elevation lookat
           = render_with_camera mj model data None distance azimuth elevation lookat"
    using assms
    by (simp add: render_with_camera_def xml_camera_scene_missing)
       (simp add: xml_camera_scene_def)
  have "render_with_camera mj model data None distance azimuth elevation lookat
          = Inr \<lparr>img_width = 320, img_height = 320, img_pixels = pixels\<rparr>"
    if "Renderer mj model 320 320 = Inr renderer"
      and "custom_camera distance azimuth elevation lookat = Inr camera"
      and "update_scene mj renderer data camera = Inr renderer'"
      and "render mj renderer' = Inr pixels"
    for renderer camera renderer' pixels
    using that
    by (simp add: render_with_camera_def xml_camera_scene_def and_then_def THUMBNAIL_SIZE_def)
  with same show ?thesis by auto
qed

theorem render_with_camera_fallback_witness:
  "render_with_camera demo_env () 4 (Some (py ''front'')) None None None None
     = Inr \<lparr>img_width = 320, img_height = 320,
            img_pixels = (4, MjvCamera 3.0 45 (- 20) (0, 0, 1))\<rparr>"
proof -
  have missing: "camera_id demo_env () (py ''front'') = None"
    by (simp add: demo_env_def py_def)
  have r: "Renderer demo_env () 320 320 = Inr None"
    by (simp add: demo_env_def)
  have c: "custom_camera None None None None = Inr (MjvCamera 3.0 45 (- 20) (0, 0, 1))"
    by (simp add: custom_camera_def assign_lookat_def and_then_def
        DEFAULT_CAMERA_DISTANCE_def DEFAULT_CAMERA_AZIMUTH_def DEFAULT_CAMERA_ELEVATION_def
        DEFAULT_CAMERA_LOOKAT_def)
  have u: "update_scene demo_env None 4 (MjvCamera 3.0 45 (- 20) (0, 0, 1))
             = Inr (Some (4, MjvCamera 3.0 45 (- 20) (0, 0, 1)))"
    by (simp add: demo_env_def)
  have p: "render demo_env (Some (4, MjvCamera 3.0 45 (- 20) (0, 0, 1)))
             = Inr (4, MjvCamera 3.0 45 (- 20) (0, 0, 1))"
    by (simp add: demo_env_def)
  from render_with_camera_fallback [OF missing, of 4 None None None None] r c u p
  show ?thesis by blast
qed

subsection \<open>C2: the sampled frame indices\<close>

lemma linspace_int_length: "length (linspace_int start stop num) = num"
  by (simp add: linspace_int_def)










lemma frame_indices_eq:
  "frame_indices qpos_data = linspace_int 0 (int (length qpos_data) - 1) 30"
  "legacy_frame_indices qpos_data = linspace_int 0 (int (length qpos_data) - 1) 30"
  by (simp_all add: frame_indices_def legacy_frame_indices_def TRAJECTORY_FRAMES_def
      legacy_TRAJECTORY_FRAMES_def)




lemma frame_indices_of_five:
  "frame_indices [1, 2, 3, 4, 5 :: nat] =
     [0, 0, 0, 0, 0, 0, 0, 0, 1, 1, 1, 1, 1, 1, 1, 2, 2, 2, 2, 2, 2, 2, 3, 3, 3, 3, 3, 3, 3, 4]"
  by code_simp

lemma frame_indices_of_thousand:
  "frame_indices (replicate 1000 ()) =
     [0, 34, 68, 103, 137, 172, 206, 241, 275, 310, 344, 378, 413, 447, 482, 516, 551, 585,
      620, 654, 688, 723, 757, 792, 826, 861, 895, 930, 964, 999]"
  by code_simp

subsection \<open>C3: the extension check of the upload endpoints\<close>

text \<open>
  C3. The claim says that under trajectories \<^verbatim>\<open>save("x.xml", ...)\<close> succeeds. The
  trajectory endpoint accepts only names that end with \<^verbatim>\<open>.npy\<close> or
  \<^verbatim>\<open>.npz\<close>: with a store whose save always succeeds, the upload of
  \<^verbatim>\<open>x.xml\<close> is answered with 400 and the store is left as it was.
\<close>

theorem upload_trajectory_xml_counterexample:
  "upload_trajectory (\<lambda>filename content category st. (Inr filename, filename # st))
       (py ''x.xml'') () None []
     = (HTTPException 400 (py ''Only .npy and .npz files are supported''), [])"
  by (simp add: upload_trajectory_def endswith_def py_def)

text \<open>
  C3, as amended. An upload whose file name does not end with a recognised extension
  (\<^verbatim>\<open>.npy\<close> or \<^verbatim>\<open>.npz\<close> for trajectories, \<^verbatim>\<open>.xml\<close> for models) is
  answered with status 400; the answer and the state of the store are the same for
  every store, so the store's save is not invoked and nothing is written. A name with
  a recognised extension reaches the store, and the answer is the store's: the
  uploaded item when save returns, status 500 when it raises. Under trajectories both
  \<^verbatim>\<open>x.txt\<close> and \<^verbatim>\<open>x.xml\<close> are rejected and \<^verbatim>\<open>x.npy\<close> reaches the
  store; under models \<^verbatim>\<open>x.xml\<close> reaches the store and \<^verbatim>\<open>x.npy\<close> is
  rejected.
\<close>

theorem upload_extension_check:
  "(\<not> (endswith filename (py ''.npy'') \<or> endswith filename (py ''.npz''))
      \<longrightarrow> upload_trajectory save_trajectory filename content category st
            = (HTTPException 400 (py ''Only .npy and .npz files are supported''), st))
   \<and> (endswith filename (py ''.npy'') \<or> endswith filename (py ''.npz'')
      \<longrightarrow> upload_trajectory save_trajectory filename content category st
            = (case save_trajectory filename content category st of
                 (Inl msg, st') \<Rightarrow>
                   (HTTPException 500 (py ''Failed to upload trajectory: '' @ msg), st')
               | (Inr trajectory, st') \<Rightarrow>
                   (Response \<lparr>up_success = True,
                              up_message = py ''Trajectory uploaded successfully'',
                              up_item = trajectory\<rparr>, st')))
   \<and> (\<not> endswith filename (py ''.xml'')
      \<longrightarrow> upload_model save_model filename content model_name st
            = (HTTPException 400 (py ''Only .xml files are supported''), st))
   \<and> (endswith filename (py ''.xml'')
      \<longrightarrow> upload_model save_model filename content model_name st
            = (case save_model filename content model_name st of
                 (Inl msg, st') \<Rightarrow>
                   (HTTPException 500 (py ''Failed to upload model: '' @ msg), st')
               | (Inr model, st') \<Rightarrow>
                   (Response \<lparr>up_success = True,
                              up_message = py ''Model uploaded successfully'',
                              up_item = model\<rparr>, st')))
   \<and> \<not> (endswith (py ''x.txt'') (py ''.npy'') \<or> endswith (py ''x.txt'') (py ''.npz''))
   \<and> \<not> (endswith (py ''x.xml'') (py ''.npy'') \<or> endswith (py ''x.xml'') (py ''.npz''))
   \<and> endswith (py ''x.npy'') (py ''.npy'')
   \<and> endswith (py ''x.xml'') (py ''.xml'')
   \<and> \<not> endswith (py ''x.npy'') (py ''.xml'')"
proof -
  have names: "\<not> (endswith (py ''x.txt'') (py ''.npy'') \<or> endswith (py ''x.txt'') (py ''.npz''))"
    "\<not> (endswith (py ''x.xml'') (py ''.npy'') \<or> endswith (py ''x.xml'') (py ''.npz''))"
    "endswith (py ''x.npy'') (py ''.npy'')"
    "endswith (py ''x.xml'') (py ''.xml'')"
    "\<not> endswith (py ''x.npy'') (py ''.xml'')"
    by (simp_all add: endswith_def py_def)
  have traj: "upload_trajectory save_trajectory filename content category st
      = (if \<not> (endswith filename (py ''.npy'') \<or> endswith filename (py ''.npz''))
         then (HTTPException 400 (py ''Only .npy and .npz files are supported''), st)
         else (case save_trajectory filename content category st of
                 (Inl msg, st') \<Rightarrow>
                   (HTTPException 500 (py ''Failed to upload trajectory: '' @ msg), st')
               | (Inr trajectory, st') \<Rightarrow>
                   (Response \<lparr>up_success = True,
                              up_message = py ''Trajectory uploaded successfully'',
                              up_item = trajectory\<rparr>, st')))"
    by (simp only: upload_trajectory_def)
  have model: "upload_model save_model filename content model_name st
      = (if \<not> endswith filename (py ''.xml'')
         then (HTTPException 400 (py ''Only .xml files are supported''), st)
         else (case save_model filename content model_name st of
                 (Inl msg, st') \<Rightarrow>
                   (HTTPException 500 (py ''Failed to upload model: '' @ msg), st')
               | (Inr model, st') \<Rightarrow>
                   (Response \<lparr>up_success = True,
                              up_message = py ''Model uploaded successfully'',
                              up_item = model\<rparr>, st')))"
    by (simp only: upload_model_def)
  show ?thesis
    unfolding traj model using names by simp
qed

theorem upload_extension_check_witness:
  "upload_trajectory (\<lambda>filename content category st. (Inr filename, filename # st))
       (py ''x.txt'') () None []
     = (HTTPException 400 (py ''Only .npy and .npz files are supported''), [])
   \<and> upload_model (\<lambda>filename content model_name st. (Inr filename, filename # st))
       (py ''x.xml'') () None []
     = (Response \<lparr>up_success = True, up_message = py ''Model uploaded successfully'',
                   up_item = py ''x.xml''\<rparr>, [py ''x.xml''])"
proof -
  have rejected: "\<not> (endswith (py ''x.txt'') (py ''.npy'') \<or> endswith (py ''x.txt'') (py ''.npz''))"
    and accepted: "endswith (py ''x.xml'') (py ''.xml'')"
    by (simp_all add: endswith_def py_def)
  from upload_extension_check
    [where filename = "py ''x.txt''"
       and save_trajectory = "\<lambda>filename content category st. (Inr filename, filename # st)"
       and save_model = "\<lambda>filename content model_name st. (Inr filename, filename # st)"
       and content = "()" and category = None and model_name = None and st = "[]"] rejected
  have a: "upload_trajectory (\<lambda>filename content category st. (Inr filename, filename # st))
       (py ''x.txt'') () None []
     = (HTTPException 400 (py ''Only .npy and .npz files are supported''), [])"
    by blast
  from upload_extension_check
    [where filename = "py ''x.xml''"
       and save_trajectory = "\<lambda>filename content category st. (Inr filename, filename # st)"
       and save_model = "\<lambda>filename content model_name st. (Inr filename, filename # st)"
       and content = "()" and category = None and model_name = None and st = "[]"] accepted
  have b: "upload_model (\<lambda>filename content model_name st. (Inr filename, filename # st))
       (py ''x.xml'') () None []
     = (Response \<lparr>up_success = True, up_message = py ''Model uploaded successfully'',
                   up_item = py ''x.xml''\<rparr>, [py ''x.xml''])"
    by simp
  from a b show ?thesis by simp
qed

subsection \<open>C8: the array read from a multi-array container\<close>

text \<open>
  C8. The claim says that both scripts read the same named array. For a container that
  holds its poses under \<^verbatim>\<open>qpos\<close> alone, the script under \<^verbatim>\<open>backend/\<close>
  raises \<^verbatim>\<open>KeyError\<close> (it asks for \<^verbatim>\<open>qpos_traj\<close>) while the other script
  returns the poses.
\<close>

theorem select_qpos_field_counterexample:
  "select_qpos (NpzFile (\<lambda>k. if k = py ''qpos'' then Some [1 :: nat, 2] else None))
     = Inl KeyError
   \<and> legacy_select_qpos (NpzFile (\<lambda>k. if k = py ''qpos'' then Some [1 :: nat, 2] else None))
     = Inr [1, 2]"
  by (simp add: select_qpos_def legacy_select_qpos_def py_def)

text \<open>
  C8, as amended. Both scripts take a single-array file as the pose sequence itself.
  From a multi-array container the script under \<^verbatim>\<open>backend/\<close> reads the array
  named \<^verbatim>\<open>qpos_traj\<close> and the other script the array named \<^verbatim>\<open>qpos\<close>, each
  raising \<^verbatim>\<open>KeyError\<close> when its name is absent; the two names differ, and the
  scripts obtain the same result from a container exactly when it holds the same array
  under both names or holds neither.
\<close>

theorem select_qpos_fields:
  "select_qpos (NpyArray a) = Inr a
   \<and> legacy_select_qpos (NpyArray a) = Inr a
   \<and> select_qpos (NpzFile arrays)
       = (case arrays (py ''qpos_traj'') of None \<Rightarrow> Inl KeyError | Some q \<Rightarrow> Inr q)
   \<and> legacy_select_qpos (NpzFile arrays)
       = (case arrays (py ''qpos'') of None \<Rightarrow> Inl KeyError | Some q \<Rightarrow> Inr q)
   \<and> py ''qpos_traj'' \<noteq> py ''qpos''
   \<and> (select_qpos (NpzFile arrays) = legacy_select_qpos (NpzFile arrays)
        \<longleftrightarrow> arrays (py ''qpos_traj'') = arrays (py ''qpos''))"
proof -
  have "py ''qpos_traj'' \<noteq> py ''qpos''" by (simp add: py_def)
  then show ?thesis
    by (auto simp: select_qpos_def legacy_select_qpos_def split: option.splits)
qed

subsection \<open>Where a thumbnail is stored\<close>

lemma split_on_no_sep: "d \<notin> set s \<Longrightarrow> split_on d s = [s]"
  by (induction s) auto

lemma root_of_str_rel: "slash \<notin> set s \<Longrightarrow> root_of_str s = []"
  by (cases s) (auto simp: root_of_str_def)

lemma path_of_str_name:
  "slash \<notin> set n \<Longrightarrow> n \<noteq> [] \<Longrightarrow> n \<noteq> py ''.'' \<Longrightarrow> path_of_str n = Path [] [n]"
  by (simp add: path_of_str_def split_on_no_sep root_of_str_rel)

lemma hex_not_slash: "list_all is_hex_char d \<Longrightarrow> slash \<notin> set d"
  by (auto simp: list_all_iff is_hex_char_def slash_def)

lemma path_of_str_id_ext:
  assumes "list_all is_hex_char d" "length d = 16" "slash \<notin> set ext"
  shows "path_of_str (d @ ext) = Path [] [d @ ext]"
proof (rule path_of_str_name)
  show "slash \<notin> set (d @ ext)" using assms hex_not_slash by auto
  show "d @ ext \<noteq> []" using assms by auto
  have "length (d @ ext) \<noteq> length (py ''.'')" using assms by (simp add: py_def)
  then show "d @ ext \<noteq> py ''.''" by metis
qed

lemma ext_no_slash:
  "slash \<notin> set (py ''.webp'')" "slash \<notin> set (py ''.gif'')" "slash \<notin> set (py ''.png'')"
  by (simp_all add: py_def slash_def)

lemma category_paths:
  "path_of_str (py ''models'') = Path [] [py ''models'']"
  "path_of_str (py ''trajectories'') = Path [] [py ''trajectories'']"
  "path_of_str (py ''thumbnails'') = Path [] [py ''thumbnails'']"
  by (simp_all add: path_of_str_def root_of_str_def py_def slash_def)

lemma generator_dirs:
  "models_dir (ThumbnailGenerator d) = Path (root d) (names d @ [py ''models''])"
  "trajectories_dir (ThumbnailGenerator d) = Path (root d) (names d @ [py ''trajectories''])"
  "thumbnails_dir (ThumbnailGenerator d) = Path (root d) (names d @ [py ''thumbnails''])"
  by (simp_all add: ThumbnailGenerator_def category_paths joinpath_def)

lemma relative_to_joined:
  "root rel = [] \<Longrightarrow> relative_to (joinpath base rel) base = Inr rel"
  by (cases rel) (simp add: relative_to_def joinpath_def)

lemma parent_relative: "root rel = [] \<Longrightarrow> parent rel = Path [] (butlast (names rel))"
  by (cases rel) (simp add: parent_def)

lemma model_thumbnail_path_mirrors:
  assumes "root (path_of_str p) = []" and "get_file_id p = Inr i"
  shows "model_thumbnail_path (ThumbnailGenerator d) p =
           Inr (i,
                Path (root d) (names d @ [py ''thumbnails'', py ''models'']
                                @ butlast (names (path_of_str p))),
                Path (root d) (names d @ [py ''thumbnails'', py ''models'']
                                @ butlast (names (path_of_str p)) @ [i @ py ''.webp'']))"
proof -
  from assms(2) have i: "length i = 16" "list_all is_hex_char i"
    by (auto dest: get_file_id_Inr)
  then have name: "path_of_str (i @ py ''.webp'') = Path [] [i @ py ''.webp'']"
    by (simp add: path_of_str_id_ext ext_no_slash)
  show ?thesis
    using assms
    by (simp add: model_thumbnail_path_def and_then_def generator_dirs category_paths name
        parent_relative joinpath_def)
qed

lemma trajectory_thumbnail_path_mirrors:
  assumes "root rel = []" and "get_file_id (path_str rel) = Inr i"
  shows "trajectory_thumbnail_path (ThumbnailGenerator d)
             (joinpath (trajectories_dir (ThumbnailGenerator d)) rel) =
           Inr (i,
                Path (root d) (names d @ [py ''thumbnails'', py ''trajectories'']
                                @ butlast (names rel)),
                Path (root d) (names d @ [py ''thumbnails'', py ''trajectories'']
                                @ butlast (names rel) @ [i @ py ''.webp'']))"
proof -
  from assms(2) have i: "length i = 16" "list_all is_hex_char i"
    by (auto dest: get_file_id_Inr)
  then have name: "path_of_str (i @ py ''.webp'') = Path [] [i @ py ''.webp'']"
    by (simp add: path_of_str_id_ext ext_no_slash)
  have "trajectory_thumbnail_path (ThumbnailGenerator d)
             (joinpath (trajectories_dir (ThumbnailGenerator d)) rel) =
          (let thumbnail_subdir =
             joinpath (joinpath (thumbnails_dir (ThumbnailGenerator d))
               (path_of_str (py ''trajectories''))) (parent rel);
               output_path = joinpath thumbnail_subdir (path_of_str (i @ py ''.webp''))
           in Inr (i, thumbnail_subdir, output_path))"
    by (simp add: trajectory_thumbnail_path_def and_then_def
        relative_to_joined [OF assms(1)] assms(2))
  then show ?thesis
    using assms(1)
    by (simp add: generator_dirs(3) category_paths name parent_relative joinpath_def)
qed

lemma legacy_trajectory_thumbnail_path_flat:
  assumes "root rel = []" and "get_file_id (path_str rel) = Inr i"
  shows "legacy_trajectory_thumbnail_path (ThumbnailGenerator d)
             (joinpath (trajectories_dir (ThumbnailGenerator d)) rel) =
           Inr (i, Path (root d) (names d @ [py ''thumbnails'', py ''trajectories'',
                                              i @ py ''.gif'']))"
proof -
  from assms(2) have i: "length i = 16" "list_all is_hex_char i"
    by (auto dest: get_file_id_Inr)
  then have name: "path_of_str (i @ py ''.gif'') = Path [] [i @ py ''.gif'']"
    by (simp add: path_of_str_id_ext ext_no_slash)
  have "legacy_trajectory_thumbnail_path (ThumbnailGenerator d)
             (joinpath (trajectories_dir (ThumbnailGenerator d)) rel) =
          Inr (i, joinpath (joinpath (thumbnails_dir (ThumbnailGenerator d))
                    (path_of_str (py ''trajectories''))) (path_of_str (i @ py ''.gif'')))"
    by (simp add: legacy_trajectory_thumbnail_path_def and_then_def
        relative_to_joined [OF assms(1)] legacy_get_file_id_eq assms(2))
  then show ?thesis
    by (simp add: generator_dirs(3) category_paths name joinpath_def)
qed

lemma legacy_model_thumbnail_path_flat:
  assumes "root rel = []" and "get_file_id (path_str rel) = Inr i"
  shows "legacy_model_thumbnail_path (ThumbnailGenerator d)
             (joinpath (models_dir (ThumbnailGenerator d)) rel) =
           Inr (i, Path (root d) (names d @ [py ''thumbnails'', py ''models'',
                                              i @ py ''.png'']))"
proof -
  from assms(2) have i: "length i = 16" "list_all is_hex_char i"
    by (auto dest: get_file_id_Inr)
  then have name: "path_of_str (i @ py ''.png'') = Path [] [i @ py ''.png'']"
    by (simp add: path_of_str_id_ext ext_no_slash)
  have "legacy_model_thumbnail_path (ThumbnailGenerator d)
             (joinpath (models_dir (ThumbnailGenerator d)) rel) =
          Inr (i, joinpath (joinpath (thumbnails_dir (ThumbnailGenerator d))
                    (path_of_str (py ''models''))) (path_of_str (i @ py ''.png'')))"
    by (simp add: legacy_model_thumbnail_path_def and_then_def
        relative_to_joined [OF assms(1)] legacy_get_file_id_eq assms(2))
  then show ?thesis
    by (simp add: generator_dirs(3) category_paths name joinpath_def)
qed


lemma trajectory_thumbnail_path_name:
  assumes "trajectory_thumbnail_path self trajectory_path
             = Inr (trajectory_id, thumbnail_subdir, output_path)"
  shows "path_name output_path = trajectory_id @ py ''.webp''"
proof -
  from assms obtain rel_path where
    i: "get_file_id (path_str rel_path) = Inr trajectory_id"
    and o: "output_path = joinpath thumbnail_subdir (path_of_str (trajectory_id @ py ''.webp''))"
    by (auto simp: trajectory_thumbnail_path_def and_then_def Let_def split: sum.splits)
  from i have "length trajectory_id = 16" "list_all is_hex_char trajectory_id"
    by (auto dest: get_file_id_Inr)
  then have "path_of_str (trajectory_id @ py ''.webp'') = Path [] [trajectory_id @ py ''.webp'']"
    by (simp add: path_of_str_id_ext ext_no_slash)
  with o show ?thesis by (simp add: joinpath_def path_name_def)
qed

lemma legacy_trajectory_thumbnail_path_name:
  assumes "legacy_trajectory_thumbnail_path self trajectory_path
             = Inr (trajectory_id, output_path)"
  shows "path_name output_path = trajectory_id @ py ''.gif''"
proof -
  from assms obtain rel_path where
    i: "get_file_id (path_str rel_path) = Inr trajectory_id"
    and o: "output_path = joinpath (joinpath (thumbnails_dir self)
              (path_of_str (py ''trajectories''))) (path_of_str (trajectory_id @ py ''.gif''))"
    by (auto simp: legacy_trajectory_thumbnail_path_def and_then_def legacy_get_file_id_eq
        split: sum.splits)
  from i have "length trajectory_id = 16" "list_all is_hex_char trajectory_id"
    by (auto dest: get_file_id_Inr)
  then have "path_of_str (trajectory_id @ py ''.gif'') = Path [] [trajectory_id @ py ''.gif'']"
    by (simp add: path_of_str_id_ext ext_no_slash)
  with o show ?thesis by (simp add: joinpath_def path_name_def)
qed

subsection \<open>What a successful render has written\<close>

lemma render_with_camera_size:
  "render_with_camera mj model data camera_name distance azimuth elevation lookat = Inr img
     \<Longrightarrow> img_width img = 320 \<and> img_height img = 320"
  by (auto simp: render_with_camera_def and_then_def THUMBNAIL_SIZE_def split: sum.splits)

lemma render_frames_shape:
  "render_frames mj model data qpos_data camera_name distance azimuth elevation lookat idxs
      = Inr frames
   \<Longrightarrow> length frames = length idxs
       \<and> (\<forall>f\<in>set frames. img_width f = 320 \<and> img_height f = 320)"
proof (induction idxs arbitrary: data frames)
  case Nil
  then show ?case by simp
next
  case (Cons idx rest)
  then show ?case
    by (auto split: sum.splits dest: render_with_camera_size)
qed

lemma legacy_render_frames_shape:
  "legacy_render_frames mj model data renderer qpos_data idxs = Inr frames
   \<Longrightarrow> length frames = length idxs
       \<and> (\<forall>f\<in>set frames. img_width f = 160 \<and> img_height f = 160)"
proof (induction idxs arbitrary: data renderer frames)
  case Nil
  then show ?case by simp
next
  case (Cons idx rest)
  then show ?case
    by (auto simp: legacy_THUMBNAIL_SIZE_def split: sum.splits)
qed

lemma load_and_render_shape:
  assumes "load_and_render mj model_path trajectory_path camera_name distance azimuth
             elevation lookat = Inr frames"
  shows "length frames = 30 \<and> (\<forall>f\<in>set frames. img_width f = 320 \<and> img_height f = 320)"
proof -
  from assms obtain model data qpos_data where
    "render_frames mj model data qpos_data camera_name distance azimuth elevation lookat
       (frame_indices qpos_data) = Inr frames"
    by (auto simp: load_and_render_def and_then_def split: sum.splits)
  from render_frames_shape [OF this] show ?thesis
    by (simp add: frame_indices_eq linspace_int_length)
qed

lemma legacy_load_and_render_shape:
  assumes "legacy_load_and_render mj model_path trajectory_path = Inr frames"
  shows "length frames = 30 \<and> (\<forall>f\<in>set frames. img_width f = 160 \<and> img_height f = 160)"
proof -
  from assms obtain model data renderer qpos_data where
    "legacy_render_frames mj model data renderer qpos_data (legacy_frame_indices qpos_data)
       = Inr frames"
    by (auto simp: legacy_load_and_render_def and_then_def split: sum.splits)
  from legacy_render_frames_shape [OF this] show ?thesis
    by (simp add: frame_indices_eq linspace_int_length)
qed

lemma render_trajectory_success:
  assumes "render_trajectory mj self trajectory_path model_relative_path camera_name distance
             azimuth elevation lookat ev = (Inr True, ev')"
  shows "\<exists>trajectory_id thumbnail_subdir output_path frames.
           trajectory_thumbnail_path self trajectory_path
             = Inr (trajectory_id, thumbnail_subdir, output_path)
         \<and> ev' = ev @ [Mkdir thumbnail_subdir, Saved (animated_webp output_path frames)]
         \<and> length frames = 30
         \<and> (\<forall>f\<in>set frames. img_width f = 320 \<and> img_height f = 320)"
proof -
  define model_path where "model_path = joinpath (models_dir self) (path_of_str model_relative_path)"
  from assms have body: "render_trajectory_body mj self model_path trajectory_path camera_name
        distance azimuth elevation lookat ev = (Inr (), ev')"
    by (auto simp: render_trajectory_def model_path_def Let_def split: if_splits prod.splits sum.splits)
  then obtain trajectory_id thumbnail_subdir output_path where
    p: "trajectory_thumbnail_path self trajectory_path
          = Inr (trajectory_id, thumbnail_subdir, output_path)"
    by (auto simp: render_trajectory_body_def split: sum.splits)
  with body obtain frames where
    f: "load_and_render mj model_path trajectory_path camera_name distance azimuth elevation
          lookat = Inr frames"
    and e: "ev' = ev @ [Mkdir thumbnail_subdir, Saved (animated_webp output_path frames)]"
    by (auto simp: render_trajectory_body_def split: sum.splits option.splits list.splits)
  from load_and_render_shape [OF f] p e show ?thesis by blast
qed

lemma generate_trajectory_gif_success:
  assumes "generate_trajectory_gif mj self model_path trajectory_path ev = (Inr True, ev')"
  shows "\<exists>trajectory_id output_path frames.
           legacy_trajectory_thumbnail_path self trajectory_path
             = Inr (trajectory_id, output_path)
         \<and> ev' = ev @ [Saved (animated_gif output_path frames)]
         \<and> length frames = 30
         \<and> (\<forall>f\<in>set frames. img_width f = 160 \<and> img_height f = 160)"
proof -
  from assms obtain trajectory_id output_path where
    p: "legacy_trajectory_thumbnail_path self trajectory_path = Inr (trajectory_id, output_path)"
    by (auto simp: generate_trajectory_gif_def split: sum.splits)
  with assms obtain frames where
    f: "legacy_load_and_render mj model_path trajectory_path = Inr frames"
    and e: "ev' = ev @ [Saved (animated_gif output_path frames)]"
    by (auto simp: generate_trajectory_gif_def split: sum.splits option.splits)
  from legacy_load_and_render_shape [OF f] p e show ?thesis by blast
qed

lemma render_model_success:
  assumes "render_model mj self model_relative_path camera_name distance azimuth elevation
             lookat ev = (Inr True, ev')"
  shows "\<exists>model_id thumbnail_subdir output_path img.
           model_thumbnail_path self model_relative_path
             = Inr (model_id, thumbnail_subdir, output_path)
         \<and> ev' = ev @ [Mkdir thumbnail_subdir, Saved (still_webp output_path img)]"
proof -
  define model_path where "model_path = joinpath (models_dir self) (path_of_str model_relative_path)"
  from assms have body: "render_model_body mj self model_path model_relative_path camera_name
        distance azimuth elevation lookat ev = (Inr (), ev')"
    by (auto simp: render_model_def model_path_def Let_def split: if_splits prod.splits sum.splits)
  then obtain model_id thumbnail_subdir output_path where
    p: "model_thumbnail_path self model_relative_path
          = Inr (model_id, thumbnail_subdir, output_path)"
    by (auto simp: render_model_body_def split: sum.splits)
  with body obtain img where
    "ev' = ev @ [Mkdir thumbnail_subdir, Saved (still_webp output_path img)]"
    by (auto simp: render_model_body_def split: sum.splits option.splits)
  with p show ?thesis by blast
qed

subsection \<open>The loop over the files of a folder\<close>









subsection \<open>C4: a batch over a folder\<close>



subsection \<open>C5: the place of a thumbnail under the cache root\<close>

text \<open>
  C5. The claim says that both scripts store a thumbnail under the directory of its
  asset. The script \<^verbatim>\<open>scripts/generate_thumbnails.py\<close> stores the animation of
  \<^verbatim>\<open>locomotion/a.npy\<close> directly under \<^verbatim>\<open>thumbnails/trajectories\<close>.
\<close>

theorem legacy_thumbnail_layout_counterexample:
  "map (\<lambda>e. case e of Saved c \<Rightarrow> sv_path c | Mkdir p \<Rightarrow> p)
       (snd (generate_trajectory_gif demo_env demo_generator
          (Path [slash] [py ''data'', py ''models'', py ''robot.xml''])
          (Path [slash] [py ''data'', py ''trajectories'', py ''locomotion'', py ''a.npy''])
          []))
   = [Path [slash] [py ''data'', py ''thumbnails'', py ''trajectories'',
                    py ''0c6ba066731478ff.gif'']]
   \<and> map (\<lambda>e. case e of Saved c \<Rightarrow> sv_path c | Mkdir p \<Rightarrow> p)
       (snd (generate_trajectory_gif demo_env demo_generator
          (Path [slash] [py ''data'', py ''models'', py ''robot.xml''])
          (Path [slash] [py ''data'', py ''trajectories'', py ''locomotion'', py ''a.npy''])
          []))
   \<noteq> [Path [slash] [py ''data'', py ''thumbnails'', py ''trajectories'', py ''locomotion'',
                    py ''0c6ba066731478ff.gif'']]"
  by code_simp

text \<open>
  C5, as amended. The script under \<^verbatim>\<open>backend/\<close> mirrors the directory of the
  asset: for a trajectory or a model at the relative path \<^verbatim>\<open>sub/dir/asset\<close> the
  thumbnail is written to
  \<^verbatim>\<open>data_dir/thumbnails/<category>/sub/dir/<identifier>.webp\<close>.
  The script under \<^verbatim>\<open>scripts/\<close> does not mirror it: it writes to
  \<^verbatim>\<open>data_dir/thumbnails/trajectories/<identifier>.gif\<close> and
  \<^verbatim>\<open>data_dir/thumbnails/models/<identifier>.png\<close>. In each case the identifier
  is that of the asset's relative path, and a successful render saves its image at
  that place.
\<close>

theorem thumbnail_layout:
  assumes "root rel = []" and "names rel = dirs @ [asset]"
      and "get_file_id (path_str rel) = Inr i"
      and "root (path_of_str p) = []" and "names (path_of_str p) = model_dirs @ [model_asset]"
      and "get_file_id p = Inr j"
  shows "trajectory_thumbnail_path (ThumbnailGenerator d)
             (joinpath (trajectories_dir (ThumbnailGenerator d)) rel)
           = Inr (i,
                  Path (root d) (names d @ [py ''thumbnails'', py ''trajectories''] @ dirs),
                  Path (root d) (names d @ [py ''thumbnails'', py ''trajectories''] @ dirs
                                  @ [i @ py ''.webp'']))
       \<and> model_thumbnail_path (ThumbnailGenerator d) p
           = Inr (j,
                  Path (root d) (names d @ [py ''thumbnails'', py ''models''] @ model_dirs),
                  Path (root d) (names d @ [py ''thumbnails'', py ''models''] @ model_dirs
                                  @ [j @ py ''.webp'']))
       \<and> legacy_trajectory_thumbnail_path (ThumbnailGenerator d)
             (joinpath (trajectories_dir (ThumbnailGenerator d)) rel)
           = Inr (i, Path (root d) (names d @ [py ''thumbnails'', py ''trajectories'',
                                                i @ py ''.gif'']))
       \<and> legacy_model_thumbnail_path (ThumbnailGenerator d)
             (joinpath (models_dir (ThumbnailGenerator d)) rel)
           = Inr (i, Path (root d) (names d @ [py ''thumbnails'', py ''models'',
                                                i @ py ''.png'']))
       \<and> (render_trajectory mj (ThumbnailGenerator d)
             (joinpath (trajectories_dir (ThumbnailGenerator d)) rel) model_relative_path
             camera_name distance azimuth elevation lookat ev = (Inr True, ev1)
           \<longrightarrow> (\<exists>frames. last ev1 = Saved (animated_webp
                   (Path (root d) (names d @ [py ''thumbnails'', py ''trajectories''] @ dirs
                                    @ [i @ py ''.webp''])) frames)))
       \<and> (render_model mj (ThumbnailGenerator d) p camera_name distance azimuth elevation
             lookat ev = (Inr True, ev2)
           \<longrightarrow> (\<exists>img. last ev2 = Saved (still_webp
                   (Path (root d) (names d @ [py ''thumbnails'', py ''models''] @ model_dirs
                                    @ [j @ py ''.webp''])) img)))
       \<and> (generate_trajectory_gif mj (ThumbnailGenerator d) model_path
             (joinpath (trajectories_dir (ThumbnailGenerator d)) rel) ev = (Inr True, ev3)
           \<longrightarrow> (\<exists>frames. last ev3 = Saved (animated_gif
                   (Path (root d) (names d @ [py ''thumbnails'', py ''trajectories'',
                                               i @ py ''.gif''])) frames)))"
proof -
  note t = trajectory_thumbnail_path_mirrors [OF assms(1) assms(3), of d]
  note m = model_thumbnail_path_mirrors [OF assms(4) assms(6), of d]
  note lt = legacy_trajectory_thumbnail_path_flat [OF assms(1) assms(3), of d]
  note lm = legacy_model_thumbnail_path_flat [OF assms(1) assms(3), of d]
  have a: "\<exists>frames. last ev1 = Saved (animated_webp
                   (Path (root d) (names d @ [py ''thumbnails'', py ''trajectories''] @ dirs
                                    @ [i @ py ''.webp''])) frames)"
    if "render_trajectory mj (ThumbnailGenerator d)
             (joinpath (trajectories_dir (ThumbnailGenerator d)) rel) model_relative_path
             camera_name distance azimuth elevation lookat ev = (Inr True, ev1)"
    using render_trajectory_success [OF that] t assms(2) by auto
  have b: "\<exists>img. last ev2 = Saved (still_webp
                   (Path (root d) (names d @ [py ''thumbnails'', py ''models''] @ model_dirs
                                    @ [j @ py ''.webp''])) img)"
    if "render_model mj (ThumbnailGenerator d) p camera_name distance azimuth elevation
             lookat ev = (Inr True, ev2)"
    using render_model_success [OF that] m assms(5) by auto
  have c: "\<exists>frames. last ev3 = Saved (animated_gif
                   (Path (root d) (names d @ [py ''thumbnails'', py ''trajectories'',
                                               i @ py ''.gif''])) frames)"
    if "generate_trajectory_gif mj (ThumbnailGenerator d) model_path
             (joinpath (trajectories_dir (ThumbnailGenerator d)) rel) ev = (Inr True, ev3)"
    using generate_trajectory_gif_success [OF that] lt by auto
  from t m lt lm a b c assms(2) assms(5) show ?thesis by simp
qed

theorem thumbnail_layout_witness:
  "trajectory_thumbnail_path (ThumbnailGenerator (Path [slash] [py ''data'']))
       (joinpath (trajectories_dir (ThumbnailGenerator (Path [slash] [py ''data''])))
          (Path [] [py ''locomotion'', py ''walk.npy'']))
     = Inr (py ''8dd65a9be6716014'',
            Path [slash] [py ''data'', py ''thumbnails'', py ''trajectories'', py ''locomotion''],
            Path [slash] [py ''data'', py ''thumbnails'', py ''trajectories'', py ''locomotion'',
                          py ''8dd65a9be6716014'' @ py ''.webp''])
   \<and> model_thumbnail_path (ThumbnailGenerator (Path [slash] [py ''data'']))
       (py ''MS-Human-700/MS-Human-700-MJX.xml'')
     = Inr (py ''a38ce9076c8205a1'',
            Path [slash] [py ''data'', py ''thumbnails'', py ''models'', py ''MS-Human-700''],
            Path [slash] [py ''data'', py ''thumbnails'', py ''models'', py ''MS-Human-700'',
                          py ''a38ce9076c8205a1'' @ py ''.webp''])"
proof -
  have r: "root (Path [] [py ''locomotion'', py ''walk.npy'']) = []"
    and n: "names (Path [] [py ''locomotion'', py ''walk.npy'']) = [py ''locomotion''] @ [py ''walk.npy'']"
    by simp_all
  have i: "get_file_id (path_str (Path [] [py ''locomotion'', py ''walk.npy'']))
             = Inr (py ''8dd65a9be6716014'')"
    by code_simp
  have pr: "root (path_of_str (py ''MS-Human-700/MS-Human-700-MJX.xml'')) = []"
    by code_simp
  have pn: "names (path_of_str (py ''MS-Human-700/MS-Human-700-MJX.xml''))
              = [py ''MS-Human-700''] @ [py ''MS-Human-700-MJX.xml'']"
    by code_simp
  have j: "get_file_id (py ''MS-Human-700/MS-Human-700-MJX.xml'') = Inr (py ''a38ce9076c8205a1'')"
    by code_simp
  note layout = thumbnail_layout [OF r n i pr pn j, of "Path [slash] [py ''data'']"]
  from layout [THEN conjunct1] layout [THEN conjunct2, THEN conjunct1]
  show ?thesis by simp
qed

subsection \<open>C7: the parameters of an animation\<close>

text \<open>
  C7. The claim says that trajectory animations are encoded at quality 85 with maximum
  compression effort. The script \<^verbatim>\<open>scripts/generate_thumbnails.py\<close> writes its
  animation of 30 frames with neither a quality nor a compression method (and with no
  explicit format: the \<^verbatim>\<open>.gif\<close> extension decides).
\<close>

theorem legacy_gif_encoding_counterexample:
  "map (\<lambda>e. case e of Saved c \<Rightarrow> (sv_format c, sv_quality c, sv_method c, length (sv_frames c))
             | Mkdir p \<Rightarrow> (None, None, None, 0))
       (snd (generate_trajectory_gif demo_env demo_generator
          (Path [slash] [py ''data'', py ''models'', py ''robot.xml''])
          (Path [slash] [py ''data'', py ''trajectories'', py ''locomotion'', py ''a.npy''])
          []))
   = [(None, None, None, 30)]"
  by code_simp

text \<open>
  C7, as amended. A successful \<^verbatim>\<open>render_trajectory\<close> of the script under
  \<^verbatim>\<open>backend/\<close> saves one animated WebP: 30 frames of 320 by 320 pixels, 100 ms
  per frame, loop count 0 (repeat forever), quality 85, method 6, in a file named by
  the identifier of the trajectory. A successful \<^verbatim>\<open>generate_trajectory_gif\<close> of
  the script under \<^verbatim>\<open>scripts/\<close> saves one animated GIF: 30 frames of 160 by 160
  pixels, duration 100, loop count 0, no quality and no method, in a file named by the
  identifier of the trajectory.
\<close>

theorem animation_encoding:
  "(render_trajectory mj self trajectory_path model_relative_path camera_name distance azimuth
        elevation lookat ev = (Inr True, ev')
      \<longrightarrow> (\<exists>trajectory_id thumbnail_subdir output_path frames.
            trajectory_thumbnail_path self trajectory_path
              = Inr (trajectory_id, thumbnail_subdir, output_path)
          \<and> path_name output_path = trajectory_id @ py ''.webp''
          \<and> ev' = ev @ [Mkdir thumbnail_subdir,
                          Saved \<lparr>sv_path = output_path, sv_format = Some (py ''WEBP''),
                                 sv_frames = frames, sv_duration = Some 100,
                                 sv_loop = Some 0, sv_quality = Some 85,
                                 sv_method = Some 6, sv_optimize = None\<rparr>]
          \<and> length frames = 30
          \<and> (\<forall>f\<in>set frames. img_width f = 320 \<and> img_height f = 320)))
   \<and> (generate_trajectory_gif mj self model_path trajectory_path ev = (Inr True, ev'')
      \<longrightarrow> (\<exists>trajectory_id output_path frames.
            legacy_trajectory_thumbnail_path self trajectory_path
              = Inr (trajectory_id, output_path)
          \<and> path_name output_path = trajectory_id @ py ''.gif''
          \<and> ev'' = ev @ [Saved \<lparr>sv_path = output_path, sv_format = None,
                                  sv_frames = frames, sv_duration = Some 100,
                                  sv_loop = Some 0, sv_quality = None,
                                  sv_method = None, sv_optimize = None\<rparr>]
          \<and> length frames = 30
          \<and> (\<forall>f\<in>set frames. img_width f = 160 \<and> img_height f = 160)))"
proof (intro conjI impI)
  assume "render_trajectory mj self trajectory_path model_relative_path camera_name distance
            azimuth elevation lookat ev = (Inr True, ev')"
  from render_trajectory_success [OF this] obtain trajectory_id thumbnail_subdir output_path frames
    where p: "trajectory_thumbnail_path self trajectory_path
                = Inr (trajectory_id, thumbnail_subdir, output_path)"
      and e: "ev' = ev @ [Mkdir thumbnail_subdir, Saved (animated_webp output_path frames)]"
      and f: "length frames = 30" "\<forall>f\<in>set frames. img_width f = 320 \<and> img_height f = 320"
    by blast
  from e have "ev' = ev @ [Mkdir thumbnail_subdir,
                          Saved \<lparr>sv_path = output_path, sv_format = Some (py ''WEBP''),
                                 sv_frames = frames, sv_duration = Some 100,
                                 sv_loop = Some 0, sv_quality = Some 85,
                                 sv_method = Some 6, sv_optimize = None\<rparr>]"
    by (simp add: animated_webp_def ANIMATION_DURATION_def)
  with p f trajectory_thumbnail_path_name [OF p]
  show "\<exists>trajectory_id thumbnail_subdir output_path frames.
            trajectory_thumbnail_path self trajectory_path
              = Inr (trajectory_id, thumbnail_subdir, output_path)
          \<and> path_name output_path = trajectory_id @ py ''.webp''
          \<and> ev' = ev @ [Mkdir thumbnail_subdir,
                          Saved \<lparr>sv_path = output_path, sv_format = Some (py ''WEBP''),
                                 sv_frames = frames, sv_duration = Some 100,
                                 sv_loop = Some 0, sv_quality = Some 85,
                                 sv_method = Some 6, sv_optimize = None\<rparr>]
          \<and> length frames = 30
          \<and> (\<forall>f\<in>set frames. img_width f = 320 \<and> img_height f = 320)"
    by blast
next
  assume "generate_trajectory_gif mj self model_path trajectory_path ev = (Inr True, ev'')"
  from generate_trajectory_gif_success [OF this] obtain trajectory_id output_path frames
    where p: "legacy_trajectory_thumbnail_path self trajectory_path
                = Inr (trajectory_id, output_path)"
      and e: "ev'' = ev @ [Saved (animated_gif output_path frames)]"
      and f: "length frames = 30" "\<forall>f\<in>set frames. img_width f = 160 \<and> img_height f = 160"
    by blast
  from e have "ev'' = ev @ [Saved \<lparr>sv_path = output_path, sv_format = None,
                                  sv_frames = frames, sv_duration = Some 100,
                                  sv_loop = Some 0, sv_quality = None,
                                  sv_method = None, sv_optimize = None\<rparr>]"
    by (simp add: animated_gif_def GIF_DURATION_def)
  with p f legacy_trajectory_thumbnail_path_name [OF p]
  show "\<exists>trajectory_id output_path frames.
            legacy_trajectory_thumbnail_path self trajectory_path
              = Inr (trajectory_id, output_path)
          \<and> path_name output_path = trajectory_id @ py ''.gif''
          \<and> ev'' = ev @ [Saved \<lparr>sv_path = output_path, sv_format = None,
                                  sv_frames = frames, sv_duration = Some 100,
                                  sv_loop = Some 0, sv_quality = None,
                                  sv_method = None, sv_optimize = None\<rparr>]
          \<and> length frames = 30
          \<and> (\<forall>f\<in>set frames. img_width f = 160 \<and> img_height f = 160)"
    by blast
qed

theorem animation_encoding_witness:
  "\<exists>trajectory_id thumbnail_subdir output_path frames.
      trajectory_thumbnail_path demo_generator
          (Path [slash] [py ''data'', py ''trajectories'', py ''locomotion'', py ''a.npy''])
        = Inr (trajectory_id, thumbnail_subdir, output_path)
    \<and> path_name output_path = trajectory_id @ py ''.webp''
    \<and> snd (render_trajectory demo_env demo_generator
          (Path [slash] [py ''data'', py ''trajectories'', py ''locomotion'', py ''a.npy''])
          (py ''robot.xml'') None None None None None [])
        = [] @ [Mkdir thumbnail_subdir,
                Saved \<lparr>sv_path = output_path, sv_format = Some (py ''WEBP''),
                       sv_frames = frames, sv_duration = Some 100,
                       sv_loop = Some 0, sv_quality = Some 85,
                       sv_method = Some 6, sv_optimize = None\<rparr>]
    \<and> length frames = 30
    \<and> (\<forall>f\<in>set frames. img_width f = 320 \<and> img_height f = 320)"
proof -
  have "fst (render_trajectory demo_env demo_generator
          (Path [slash] [py ''data'', py ''trajectories'', py ''locomotion'', py ''a.npy''])
          (py ''robot.xml'') None None None None None []) = Inr True"
    by code_simp
  then have run: "render_trajectory demo_env demo_generator
          (Path [slash] [py ''data'', py ''trajectories'', py ''locomotion'', py ''a.npy''])
          (py ''robot.xml'') None None None None None []
        = (Inr True, snd (render_trajectory demo_env demo_generator
          (Path [slash] [py ''data'', py ''trajectories'', py ''locomotion'', py ''a.npy''])
          (py ''robot.xml'') None None None None None []))"
    by (metis prod.collapse)
  from animation_encoding [THEN conjunct1, rule_format, OF run] show ?thesis .
qed

end
